theory Spec2Isabelle
  imports Complex_Main "HOL-Library.Option_ord" "HOL-Library.Code_Target_Numeral"
begin

section \<open>The chargeback case store\<close>

text \<open>
  The repository keeps its data in one SQLite file, \<^verbatim>\<open>chargeback_system.db\<close>, with five
  tables declared by \<^verbatim>\<open>setup_database.py\<close>. The rows are modelled column by column: a
  column declared \<^verbatim>\<open>NOT NULL\<close> has its value's type, every other column is an
  \<open>option\<close> with \<open>None\<close> for SQL \<^verbatim>\<open>NULL\<close>. SQLite admits \<^verbatim>\<open>NULL\<close> in a primary key that
  is not an \<^verbatim>\<open>INTEGER PRIMARY KEY\<close>, so the four text keys are options too.

  Amounts and scores (\<^verbatim>\<open>DECIMAL\<close> columns, Python floats) are rationals holding the decimal
  literal's exact value. A timestamp is the number of days before the clock reading of
  the run, which is all \<^verbatim>\<open>random_date\<close> chooses; its ISO rendering is left out.
\<close>

type_synonym timestamp = nat

datatype error =
    IntegrityError string
  | OperationalError string
  | TypeError string
  | ValueError string

record customer =
  customer_id :: "string option"
  name :: string
  email :: "string option"
  region :: "string option"
  created_at :: "timestamp option"
  total_chargebacks :: "int option"
  total_refunds :: "rat option"

record merchant =
  merchant_id :: "string option"
  merchant_name :: string
  acquiring_bank :: "string option"
  win_rate :: "rat option"
  merchant_created_at :: "timestamp option"

text \<open>\<^verbatim>\<open>velocity_data\<close> is the JSON text of a dictionary with the three counters
  \<^verbatim>\<open>cards_last_24h\<close>, \<^verbatim>\<open>same_ip_count\<close> and \<^verbatim>\<open>transactions_last_week\<close>, in this order.\<close>

type_synonym velocity = "nat \<times> nat \<times> nat"

record transaction =
  transaction_id :: "string option"
  tx_customer_id :: string
  tx_merchant_id :: string
  amount :: rat
  currency :: "string option"
  payment_method :: "string option"
  card_last_4 :: "string option"
  transaction_date :: "timestamp option"
  tx_status :: "string option"
  avs_check :: "string option"
  cvv_check :: "string option"
  three_ds_used :: "int option"
  auth_code :: "string option"
  ip_address :: "string option"
  device_fingerprint :: "string option"
  fraud_score :: "rat option"
  risk_level :: "string option"
  velocity_flag :: "int option"
  velocity_data :: "velocity option"
  risk_assessed_at :: "timestamp option"

record chargeback =
  chargeback_id :: "string option"
  cb_transaction_id :: string
  dispute_date :: "timestamp option"
  reason_code :: "string option"
  dispute_type :: "string option"
  issuing_bank :: "string option"
  chargeback_amount :: rat
  analyst_id :: "string option"
  status :: "string option"
  opened_at :: "timestamp option"
  closed_at :: "timestamp option"
  outcome :: "string option"
  retrieval_request_date :: "timestamp option"
  response_deadline :: "timestamp option"
  cb_notes :: "string option"

text \<open>
  The columns \<^verbatim>\<open>event_data\<close> (JSON text) and \<^verbatim>\<open>description\<close> of a case event are carried
  together as its \<open>event_body\<close>. An authored body stands for the payload and description
  written in \<^verbatim>\<open>case_evidence\<close> under a chargeback id at a position; the four generic
  bodies are the payloads of the fallback sequences, with their descriptions.
\<close>

datatype event_body =
    Authored string nat
  | TicketId nat string
  | LoginIp string string
  | RefundAmount rat string
  | EvidenceSubmitted bool string

record case_event =
  event_id :: nat
  ev_chargeback_id :: string
  event_type :: string
  event_date :: "timestamp option"
  event_body :: event_body

text \<open>
  A store is the content of the five tables, rows in insertion order, and the counter
  SQLite keeps in \<^verbatim>\<open>sqlite_sequence\<close> for the \<^verbatim>\<open>AUTOINCREMENT\<close> key of \<^verbatim>\<open>case_events\<close>:
  the largest \<^verbatim>\<open>event_id\<close> ever handed out, which deleting rows does not lower.
  The twelve indexes are created with \<^verbatim>\<open>CREATE INDEX\<close>, none of them \<^verbatim>\<open>UNIQUE\<close>: they
  constrain nothing and change no query result, so they are not part of the state.
\<close>

record store =
  customers :: "customer list"
  merchants :: "merchant list"
  transactions :: "transaction list"
  chargebacks :: "chargeback list"
  case_events :: "case_event list"
  case_events_seq :: nat

definition empty_store :: store where
  "empty_store =
     \<lparr>customers = [], merchants = [], transactions = [], chargebacks = [],
      case_events = [], case_events_seq = 0\<rparr>"

text \<open>The database file either has no table yet (what \<^verbatim>\<open>sqlite3.connect\<close> creates at a
  path where nothing exists) or holds the five tables. \<^verbatim>\<open>DB_PATH\<close> names such a file or
  nothing.\<close>

datatype database = NoTables | Tables store

type_synonym db_path = "database option"

subsection \<open>Connections and the write interface\<close>

text \<open>
  SQLite checks foreign keys only on a connection that has executed
  \<^verbatim>\<open>PRAGMA foreign_keys = ON\<close>; the setting belongs to the connection, is not stored in the
  file, and is off on every new connection.
\<close>

record connection =
  foreign_keys :: bool

definition connect :: connection where
  "connect = \<lparr>foreign_keys = False\<rparr>"

definition pragma_foreign_keys_on :: "connection \<Rightarrow> connection" where
  "pragma_foreign_keys_on c = c\<lparr>foreign_keys := True\<rparr>"

text \<open>A key value clashes with a table's keys when it is not \<^verbatim>\<open>NULL\<close> and a row has it.\<close>

definition key_taken :: "string option \<Rightarrow> string option list \<Rightarrow> bool" where
  "key_taken k ks = (k \<noteq> None \<and> k \<in> set ks)"

text \<open>A child key has a parent when some parent row's key equals it.\<close>

definition has_parent :: "string \<Rightarrow> string option list \<Rightarrow> bool" where
  "has_parent k ks = (Some k \<in> set ks)"

text \<open>
  An \<^verbatim>\<open>INSERT\<close> either appends the row or fails with \<^verbatim>\<open>sqlite3.IntegrityError\<close>, and a
  failed statement changes nothing: the caller still holds the store it passed in.
\<close>

definition insert_customer :: "connection \<Rightarrow> customer \<Rightarrow> store \<Rightarrow> error + store" where
  "insert_customer c r s =
     (if key_taken (customer_id r) (map customer_id (customers s))
      then Inl (IntegrityError ''UNIQUE constraint failed: customers.customer_id'')
      else Inr (s\<lparr>customers := customers s @ [r]\<rparr>))"

definition insert_merchant :: "connection \<Rightarrow> merchant \<Rightarrow> store \<Rightarrow> error + store" where
  "insert_merchant c r s =
     (if key_taken (merchant_id r) (map merchant_id (merchants s))
      then Inl (IntegrityError ''UNIQUE constraint failed: merchants.merchant_id'')
      else Inr (s\<lparr>merchants := merchants s @ [r]\<rparr>))"

definition insert_transaction :: "connection \<Rightarrow> transaction \<Rightarrow> store \<Rightarrow> error + store" where
  "insert_transaction c r s =
     (if key_taken (transaction_id r) (map transaction_id (transactions s))
      then Inl (IntegrityError ''UNIQUE constraint failed: transactions.transaction_id'')
      else if foreign_keys c \<and>
              \<not> (has_parent (tx_customer_id r) (map customer_id (customers s)) \<and>
                 has_parent (tx_merchant_id r) (map merchant_id (merchants s)))
      then Inl (IntegrityError ''FOREIGN KEY constraint failed'')
      else Inr (s\<lparr>transactions := transactions s @ [r]\<rparr>))"

definition insert_chargeback :: "connection \<Rightarrow> chargeback \<Rightarrow> store \<Rightarrow> error + store" where
  "insert_chargeback c r s =
     (if key_taken (chargeback_id r) (map chargeback_id (chargebacks s))
      then Inl (IntegrityError ''UNIQUE constraint failed: chargebacks.chargeback_id'')
      else if foreign_keys c \<and>
              \<not> has_parent (cb_transaction_id r) (map transaction_id (transactions s))
      then Inl (IntegrityError ''FOREIGN KEY constraint failed'')
      else Inr (s\<lparr>chargebacks := chargebacks s @ [r]\<rparr>))"

text \<open>
  A case event is inserted without its key. \<^verbatim>\<open>AUTOINCREMENT\<close> gives it one more than the
  largest key ever used and fails with \<^verbatim>\<open>SQLITE_FULL\<close> (an \<^verbatim>\<open>OperationalError\<close> in Python)
  once the largest 64-bit key, \<open>2^63 - 1\<close>, has been used.
\<close>

definition max_rowid :: nat where
  "max_rowid = 2 ^ 63 - 1"

definition next_event_id :: "store \<Rightarrow> nat" where
  "next_event_id s = Suc (max (case_events_seq s) (Max (set (0 # map event_id (case_events s)))))"

definition insert_case_event ::
  "connection \<Rightarrow> string \<Rightarrow> string \<Rightarrow> timestamp option \<Rightarrow> event_body \<Rightarrow> store \<Rightarrow> error + store"
where
  "insert_case_event c cb_id ty d b s =
     (if max_rowid < next_event_id s
      then Inl (OperationalError ''database or disk is full'')
      else if foreign_keys c \<and> \<not> has_parent cb_id (map chargeback_id (chargebacks s))
      then Inl (IntegrityError ''FOREIGN KEY constraint failed'')
      else Inr (s\<lparr>case_events := case_events s @
                      [\<lparr>event_id = next_event_id s, ev_chargeback_id = cb_id, event_type = ty,
                        event_date = d, event_body = b\<rparr>],
                    case_events_seq := next_event_id s\<rparr>))"

subsection \<open>\<^verbatim>\<open>init_database\<close>\<close>

text \<open>
  \<^verbatim>\<open>init_database\<close> removes the file at \<^verbatim>\<open>DB_PATH\<close> when there is one, connects (which
  creates an empty file), switches foreign keys on for its own connection, creates the
  five tables and the indexes, commits and closes. It takes no argument and asks nothing.
  \<^verbatim>\<open>CREATE TABLE\<close> fails on a file that has the table already.
\<close>

definition unlink :: "db_path \<Rightarrow> db_path" where
  "unlink p = None"

definition open_database :: "db_path \<Rightarrow> database" where
  "open_database p = (case p of None \<Rightarrow> NoTables | Some d \<Rightarrow> d)"

definition create_tables :: "database \<Rightarrow> error + database" where
  "create_tables d =
     (case d of
        NoTables \<Rightarrow> Inr (Tables empty_store)
      | Tables s \<Rightarrow> Inl (OperationalError ''table customers already exists''))"

definition init_database :: "db_path \<Rightarrow> error + db_path" where
  "init_database p =
     (let p1 = (if p \<noteq> None then unlink p else p);
          d = open_database p1;
          c = pragma_foreign_keys_on connect
      in case create_tables d of
           Inl e \<Rightarrow> Inl e
         | Inr d' \<Rightarrow> Inr (Some d'))"



section \<open>The reporting layer: \<^verbatim>\<open>view_data.py\<close>\<close>

text \<open>
  The aggregates of SQL over a column's values: \<^verbatim>\<open>SUM\<close>, \<^verbatim>\<open>AVG\<close>, \<^verbatim>\<open>MIN\<close> and \<^verbatim>\<open>MAX\<close> are
  \<^verbatim>\<open>NULL\<close> when no row contributes a value, and skip \<^verbatim>\<open>NULL\<close> values; a count is never
  \<^verbatim>\<open>NULL\<close>. Python receives \<^verbatim>\<open>NULL\<close> as \<^verbatim>\<open>None\<close>.
\<close>

definition non_null :: "'a option list \<Rightarrow> 'a list" where
  "non_null xs = [x. Some x \<leftarrow> xs]"

definition sql_sum :: "rat list \<Rightarrow> rat option" where
  "sql_sum xs = (if xs = [] then None else Some (sum_list xs))"

definition sql_avg :: "rat list \<Rightarrow> rat option" where
  "sql_avg xs = (if xs = [] then None else Some (sum_list xs / of_nat (length xs)))"

definition sql_min :: "rat list \<Rightarrow> rat option" where
  "sql_min xs = (case xs of [] \<Rightarrow> None | x # ys \<Rightarrow> Some (fold min ys x))"

definition sql_max :: "rat list \<Rightarrow> rat option" where
  "sql_max xs = (case xs of [] \<Rightarrow> None | x # ys \<Rightarrow> Some (fold max ys x))"

definition count_distinct :: "'a list \<Rightarrow> nat" where
  "count_distinct xs = length (remdups xs)"

text \<open>The row counts of the five tables, in the order of the list \<^verbatim>\<open>tables\<close>.\<close>

definition table_counts :: "store \<Rightarrow> (string \<times> nat) list" where
  "table_counts s =
     [(''customers'', length (customers s)), (''merchants'', length (merchants s)),
      (''transactions'', length (transactions s)), (''chargebacks'', length (chargebacks s)),
      (''case_events'', length (case_events s))]"

text \<open>The one row of the transactions summary: total, unique customers, unique
  merchants, then sum, average, minimum and maximum of \<^verbatim>\<open>amount\<close>.\<close>

definition transactions_summary ::
  "store \<Rightarrow> nat \<times> nat \<times> nat \<times> rat option \<times> rat option \<times> rat option \<times> rat option"
where
  "transactions_summary s =
     (let ts = transactions s; amounts = map amount ts
      in (length ts, count_distinct (map tx_customer_id ts), count_distinct (map tx_merchant_id ts),
          sql_sum amounts, sql_avg amounts, sql_min amounts, sql_max amounts))"

text \<open>The one row of the chargeback summary: total, the counts of the four statuses,
  and the sum of \<^verbatim>\<open>chargeback_amount\<close>.\<close>

definition count_status :: "string \<Rightarrow> chargeback list \<Rightarrow> nat" where
  "count_status v cs = length (filter (\<lambda>c. status c = Some v) cs)"

definition chargebacks_summary ::
  "store \<Rightarrow> nat \<times> nat \<times> nat \<times> nat \<times> nat \<times> rat option"
where
  "chargebacks_summary s =
     (let cs = chargebacks s
      in (length cs, count_status ''open'' cs, count_status ''under_review'' cs,
          count_status ''won'' cs, count_status ''lost'' cs,
          sql_sum (map chargeback_amount cs)))"

text \<open>
  The two grouped queries. Their \<^verbatim>\<open>ORDER BY ... DESC\<close> is a stable sort reversed; SQLite
  promises no order among rows with equal keys.
\<close>

definition event_type_counts :: "store \<Rightarrow> (string \<times> nat) list" where
  "event_type_counts s =
     (let tys = map event_type (case_events s)
      in rev (sort_key snd (map (\<lambda>ty. (ty, length (filter (\<lambda>x. x = ty) tys))) (remdups tys))))"

definition risk_analysis :: "store \<Rightarrow> (string \<times> nat \<times> rat option \<times> rat option) list" where
  "risk_analysis s =
     (let levels = remdups (non_null (map risk_level (transactions s)));
          row = (\<lambda>l. let ts = filter (\<lambda>t. risk_level t = Some l) (transactions s)
                     in (l, length ts, sql_avg (non_null (map fraud_score ts)),
                         sql_sum (map amount ts)))
      in rev (sort_key (\<lambda>(l, n, avg_score, sum_amount). avg_score) (map row levels)))"

text \<open>
  \<^verbatim>\<open>view_database\<close> prints an amount with the format \<^verbatim>\<open>:,.2f\<close>. Formatting \<^verbatim>\<open>None\<close> with it
  raises \<^verbatim>\<open>TypeError\<close>; a number is printed, and the printed text is taken to be the number.
\<close>

definition format_money :: "rat option \<Rightarrow> error + rat" where
  "format_money v =
     (case v of
        None \<Rightarrow> Inl (TypeError ''unsupported format string passed to NoneType.__format__'')
      | Some x \<Rightarrow> Inr x)"

definition bind_result :: "error + 'a \<Rightarrow> ('a \<Rightarrow> error + 'b) \<Rightarrow> error + 'b" where
  "bind_result m f = (case m of Inl e \<Rightarrow> Inl e | Inr x \<Rightarrow> f x)"

record report =
  r_table_counts :: "(string \<times> nat) list"
  r_transactions :: "nat \<times> nat \<times> nat \<times> rat \<times> rat \<times> rat \<times> rat"
  r_chargebacks :: "nat \<times> nat \<times> nat \<times> nat \<times> nat \<times> rat"
  r_event_types :: "(string \<times> nat) list"
  r_risk_analysis :: "(string \<times> nat \<times> rat option \<times> rat option) list"

text \<open>
  \<^verbatim>\<open>view_database\<close>, in the order of its statements: the check that the file exists (a
  message and a normal return when it does not), the table counts, the transactions
  summary with its four formatted amounts, the chargeback summary with its formatted
  total, the event types and the risk analysis. The listings it prints in between
  (customers, merchants, sample transactions, all chargebacks, sample events) go through
  \<^verbatim>\<open>tabulate\<close> or print a "none found" line; they compute no aggregate and are left out.
  The first exception ends the function.
\<close>

definition view_database :: "db_path \<Rightarrow> error + report option" where
  "view_database p =
     (case p of
        None \<Rightarrow> Inr None
      | Some NoTables \<Rightarrow> Inl (OperationalError ''no such table: customers'')
      | Some (Tables s) \<Rightarrow>
          (case transactions_summary s of (n, ncust, nmerch, t_sum, t_avg, t_min, t_max) \<Rightarrow>
           bind_result (format_money t_sum) (\<lambda>sum_amount.
           bind_result (format_money t_avg) (\<lambda>avg_amount.
           bind_result (format_money t_min) (\<lambda>min_amount.
           bind_result (format_money t_max) (\<lambda>max_amount.
           (case chargebacks_summary s of (m, n_open, n_review, n_won, n_lost, cb_sum) \<Rightarrow>
            bind_result (format_money cb_sum) (\<lambda>total_amount.
            Inr (Some \<lparr>r_table_counts = table_counts s,
                       r_transactions = (n, ncust, nmerch, sum_amount, avg_amount, min_amount, max_amount),
                       r_chargebacks = (m, n_open, n_review, n_won, n_lost, total_amount),
                       r_event_types = event_type_counts s,
                       r_risk_analysis = risk_analysis s\<rparr>)))))))))"

section \<open>The generator: \<^verbatim>\<open>seed_data.py\<close>\<close>

subsection \<open>Random choices and identifiers\<close>

text \<open>
  The generator's random choices come from Python's global generator. A run is modelled
  against the stream of that generator's raw outputs still to come: every call of
  \<^verbatim>\<open>random\<close> maps the next raw output into its range, and the statements of the program
  consume the stream in the order Python evaluates them. Nothing is assumed of the
  stream, so a property proved for every stream holds for every seed.

  \<^verbatim>\<open>random.randint(a, b)\<close> raises \<^verbatim>\<open>ValueError\<close> when \<open>b < a\<close>; each call of the source has
  literal bounds with \<open>a \<le> b\<close>. \<^verbatim>\<open>round(random.uniform(a, b), 2)\<close> is a number of
  hundredths between \<open>a\<close> and \<open>b\<close>.
\<close>

type_synonym rng = "nat \<Rightarrow> nat"

definition advance :: "nat \<Rightarrow> rng \<Rightarrow> rng" where
  "advance n g = (\<lambda>i. g (i + n))"

definition randint :: "nat \<Rightarrow> nat \<Rightarrow> nat \<Rightarrow> nat" where
  "randint a b raw = a + raw mod (b - a + 1)"

definition choice :: "'a list \<Rightarrow> nat \<Rightarrow> 'a" where
  "choice xs raw = xs ! (raw mod length xs)"

definition uniform_rounded :: "nat \<Rightarrow> nat \<Rightarrow> nat \<Rightarrow> rat" where
  "uniform_rounded a b raw = of_nat (randint (100 * a) (100 * b) raw) / 100"

definition random_date :: "nat \<Rightarrow> nat \<Rightarrow> nat \<Rightarrow> timestamp" where
  "random_date start_days_ago end_days_ago raw = randint end_days_ago start_days_ago raw"

text \<open>Decimal digits of a number, and \<^verbatim>\<open>generate_id\<close>: the prefix, an underscore and the
  number padded with zeros to four digits (format \<^verbatim>\<open>04d\<close>).\<close>

definition digit_char :: "nat \<Rightarrow> char" where
  "digit_char d = char_of (48 + d)"

function str_nat :: "nat \<Rightarrow> string" where
  "str_nat n = (if n < 10 then [digit_char n] else str_nat (n div 10) @ [digit_char (n mod 10)])"
  by pat_completeness auto
termination
  by (relation "measure id") auto

declare str_nat.simps [simp del]

definition zero_pad :: "nat \<Rightarrow> string \<Rightarrow> string" where
  "zero_pad w ds = replicate (w - length ds) CHR ''0'' @ ds"

definition generate_id :: "string \<Rightarrow> nat \<Rightarrow> string" where
  "generate_id prefix num = prefix @ ''_'' @ zero_pad 4 (str_nat num)"

text \<open>The number a string of decimal digits denotes; it reads an identifier's number back.\<close>

definition digits_value :: "string \<Rightarrow> nat" where
  "digits_value ds = foldl (\<lambda>a ch. 10 * a + (of_char ch - 48)) 0 ds"

subsection \<open>Clearing the tables\<close>

text \<open>
  \<^verbatim>\<open>DELETE FROM\<close> a table removes its rows. On a connection that checks foreign keys it
  fails while a row of a child table still refers to a row being deleted.
\<close>

definition delete_case_events :: "connection \<Rightarrow> store \<Rightarrow> error + store" where
  "delete_case_events c s = Inr (s\<lparr>case_events := []\<rparr>)"

definition delete_chargebacks :: "connection \<Rightarrow> store \<Rightarrow> error + store" where
  "delete_chargebacks c s =
     (if foreign_keys c \<and>
         list_ex (\<lambda>e. has_parent (ev_chargeback_id e) (map chargeback_id (chargebacks s)))
           (case_events s)
      then Inl (IntegrityError ''FOREIGN KEY constraint failed'')
      else Inr (s\<lparr>chargebacks := []\<rparr>))"

definition delete_transactions :: "connection \<Rightarrow> store \<Rightarrow> error + store" where
  "delete_transactions c s =
     (if foreign_keys c \<and>
         list_ex (\<lambda>b. has_parent (cb_transaction_id b) (map transaction_id (transactions s)))
           (chargebacks s)
      then Inl (IntegrityError ''FOREIGN KEY constraint failed'')
      else Inr (s\<lparr>transactions := []\<rparr>))"

definition delete_customers :: "connection \<Rightarrow> store \<Rightarrow> error + store" where
  "delete_customers c s =
     (if foreign_keys c \<and>
         list_ex (\<lambda>t. has_parent (tx_customer_id t) (map customer_id (customers s)))
           (transactions s)
      then Inl (IntegrityError ''FOREIGN KEY constraint failed'')
      else Inr (s\<lparr>customers := []\<rparr>))"

definition delete_merchants :: "connection \<Rightarrow> store \<Rightarrow> error + store" where
  "delete_merchants c s =
     (if foreign_keys c \<and>
         list_ex (\<lambda>t. has_parent (tx_merchant_id t) (map merchant_id (merchants s)))
           (transactions s)
      then Inl (IntegrityError ''FOREIGN KEY constraint failed'')
      else Inr (s\<lparr>merchants := []\<rparr>))"

definition clear_existing_data :: "connection \<Rightarrow> store \<Rightarrow> error + store" where
  "clear_existing_data c s =
     bind_result (delete_case_events c s) (\<lambda>s1.
     bind_result (delete_chargebacks c s1) (\<lambda>s2.
     bind_result (delete_transactions c s2) (\<lambda>s3.
     bind_result (delete_customers c s3) (\<lambda>s4.
     delete_merchants c s4))))"

subsection \<open>Merchants, customers and their normal transactions\<close>

definition merchants_data :: "(string \<times> string \<times> string \<times> rat) list" where
  "merchants_data =
     [(''merch_001'', ''TechStore Pro'', ''Chase Bank'', 72.5),
      (''merch_002'', ''FashionHub'', ''Bank of America'', 68.3),
      (''merch_003'', ''Electronics Plus'', ''Wells Fargo'', 75.1),
      (''merch_004'', ''Home Essentials'', ''Citi Bank'', 70.8)]"

definition customers_data :: "(string \<times> string \<times> string \<times> string) list" where
  "customers_data =
     [(''cust_001'', ''Sarah Johnson'', ''sarah.j@email.com'', ''US''),
      (''cust_002'', ''Michael Chen'', ''m.chen@email.com'', ''US''),
      (''cust_003'', ''Emma Williams'', ''emma.w@email.com'', ''US''),
      (''cust_004'', ''David Rodriguez'', ''d.rodriguez@email.com'', ''US''),
      (''cust_005'', ''Lisa Anderson'', ''lisa.a@email.com'', ''US''),
      (''cust_006'', ''James Taylor'', ''j.taylor@email.com'', ''US''),
      (''cust_007'', ''Maria Garcia'', ''maria.g@email.com'', ''US'')]"

text \<open>\<^verbatim>\<open>random_date(730)\<close> takes the default \<^verbatim>\<open>end_days_ago = 1\<close>. The columns the
  \<^verbatim>\<open>INSERT\<close> does not name take their declared defaults.\<close>

fun create_merchants ::
  "connection \<Rightarrow> (string \<times> string \<times> string \<times> rat) list \<Rightarrow> rng \<Rightarrow> store \<Rightarrow> error + store \<times> rng"
where
  "create_merchants c [] g s = Inr (s, g)"
| "create_merchants c ((mid, nm, bank, rate) # ms) g s =
     (case insert_merchant c
             \<lparr>merchant_id = Some mid, merchant_name = nm, acquiring_bank = Some bank,
              win_rate = Some rate, merchant_created_at = Some (random_date 730 1 (g 0))\<rparr> s of
        Inl e \<Rightarrow> Inl e
      | Inr s' \<Rightarrow> create_merchants c ms (advance 1 g) s')"

fun create_customers ::
  "connection \<Rightarrow> (string \<times> string \<times> string \<times> string) list \<Rightarrow> rng \<Rightarrow> store \<Rightarrow> error + store \<times> rng"
where
  "create_customers c [] g s = Inr (s, g)"
| "create_customers c ((cid, nm, mail, reg) # cs) g s =
     (case insert_customer c
             \<lparr>customer_id = Some cid, name = nm, email = Some mail, region = Some reg,
              created_at = Some (random_date 730 1 (g 0)), total_chargebacks = Some 0,
              total_refunds = Some 0\<rparr> s of
        Inl e \<Rightarrow> Inl e
      | Inr s' \<Rightarrow> create_customers c cs (advance 1 g) s')"

text \<open>One normal transaction draws fourteen values, in the order Python evaluates the
  assignments and then the tuple of the \<^verbatim>\<open>INSERT\<close>.\<close>

definition normal_transaction :: "string \<Rightarrow> string \<Rightarrow> rng \<Rightarrow> transaction" where
  "normal_transaction tx_id cid g =
     (let mid = choice [''merch_001'', ''merch_002'', ''merch_003'', ''merch_004''] (g 0);
          amt = uniform_rounded 25 850 (g 1);
          tx_date = random_date 180 10 (g 2);
          score = uniform_rounded 5 25 (g 3);
          velocity = (0, 1, randint 1 3 (g 4))
      in \<lparr>transaction_id = Some tx_id, tx_customer_id = cid, tx_merchant_id = mid,
          amount = amt, currency = Some ''USD'',
          payment_method = Some (choice [''visa'', ''mastercard'', ''amex''] (g 5)),
          card_last_4 = Some (str_nat (randint 1000 9999 (g 6))),
          transaction_date = Some tx_date, tx_status = Some ''completed'',
          avs_check = Some (choice [''Y'', ''N'', ''Z''] (g 7)),
          cvv_check = Some (choice [''Y'', ''N''] (g 8)),
          three_ds_used = Some (choice [0, 1] (g 9)),
          auth_code = Some (''AUTH'' @ str_nat (randint 10000 99999 (g 10))),
          ip_address = Some (''192.168.'' @ str_nat (randint 1 255 (g 11)) @ ''.'' @
                             str_nat (randint 1 255 (g 12))),
          device_fingerprint = Some (''DEV'' @ str_nat (randint 100000 999999 (g 13))),
          fraud_score = Some score, risk_level = Some ''low'', velocity_flag = Some 0,
          velocity_data = Some velocity, risk_assessed_at = Some tx_date\<rparr>)"

text \<open>The inner loop: \<open>n\<close> transactions of one customer, \<open>k\<close> being
  \<^verbatim>\<open>transaction_counter\<close>. The outer loop draws \<open>n\<close> for each customer.\<close>

fun customer_transactions ::
  "connection \<Rightarrow> string \<Rightarrow> nat \<Rightarrow> nat \<Rightarrow> rng \<Rightarrow> store \<Rightarrow> error + store \<times> nat \<times> rng"
where
  "customer_transactions c cid 0 k g s = Inr (s, k, g)"
| "customer_transactions c cid (Suc n) k g s =
     (case insert_transaction c (normal_transaction (generate_id ''txn'' k) cid g) s of
        Inl e \<Rightarrow> Inl e
      | Inr s' \<Rightarrow> customer_transactions c cid n (k + 1) (advance 14 g) s')"

fun normal_transactions ::
  "connection \<Rightarrow> (string \<times> string \<times> string \<times> string) list \<Rightarrow> nat \<Rightarrow> rng \<Rightarrow> store
     \<Rightarrow> error + store \<times> nat \<times> rng"
where
  "normal_transactions c [] k g s = Inr (s, k, g)"
| "normal_transactions c ((cid, nm, mail, reg) # cs) k g s =
     (case customer_transactions c cid (randint 5 10 (g 0)) k (advance 1 g) s of
        Inl e \<Rightarrow> Inl e
      | Inr (s', k', g') \<Rightarrow> normal_transactions c cs k' g' s')"

subsection \<open>The twenty-three chargeback cases\<close>

text \<open>
  The source writes the cases as twenty-three blocks of one shape: take the next
  transaction id, advance the counter, insert the disputed transaction, append the case
  to \<^verbatim>\<open>chargeback_cases\<close>. A block is modelled by its literal values; a pair of numbers is
  the argument pair of a \<^verbatim>\<open>random_date\<close> call. In every block the currency is \<^verbatim>\<open>USD\<close>, the
  transaction's status is \<^verbatim>\<open>disputed\<close>, and \<^verbatim>\<open>transaction_date\<close> and \<^verbatim>\<open>risk_assessed_at\<close>
  are two calls with the same arguments.
\<close>

record block =
  b_customer_id :: string
  b_merchant_id :: string
  b_amount :: rat
  b_payment_method :: string
  b_card_last_4 :: string
  b_transaction_date :: "nat \<times> nat"
  b_avs_check :: string
  b_cvv_check :: string
  b_three_ds_used :: int
  b_auth_code :: string
  b_ip_address :: string
  b_device_fingerprint :: string
  b_fraud_score :: rat
  b_risk_level :: string
  b_velocity_flag :: int
  b_velocity_data :: velocity
  b_chargeback_id :: string
  b_dispute_date :: "nat \<times> nat"
  b_reason_code :: string
  b_dispute_type :: string
  b_issuing_bank :: string
  b_chargeback_amount :: rat
  b_analyst_id :: string
  b_status :: string
  b_opened_at :: "nat \<times> nat"
  b_closed_at :: "(nat \<times> nat) option"
  b_outcome :: "string option"
  b_notes :: string
  b_fraud_type :: string

text \<open>An entry of the list \<^verbatim>\<open>chargeback_cases\<close>: a dictionary with these fourteen keys.\<close>

record cb_case =
  case_chargeback_id :: string
  case_transaction_id :: string
  case_dispute_date :: timestamp
  case_reason_code :: string
  case_dispute_type :: string
  case_issuing_bank :: string
  case_chargeback_amount :: rat
  case_analyst_id :: string
  case_status :: string
  case_opened_at :: timestamp
  case_closed_at :: "timestamp option"
  case_outcome :: "string option"
  case_notes :: string
  case_fraud_type :: string

definition case_blocks :: "block list" where
  "case_blocks =
    [\<lparr>b_customer_id = ''cust_001'', b_merchant_id = ''merch_001'', b_amount = 1249.99,
      b_payment_method = ''visa'', b_card_last_4 = ''4521'', b_transaction_date = (30, 25),
      b_avs_check = ''N'', b_cvv_check = ''N'', b_three_ds_used = 0, b_auth_code = ''AUTH12345'',
      b_ip_address = ''185.220.101.45'', b_device_fingerprint = ''DEV999001'',
      b_fraud_score = 95.5, b_risk_level = ''high'', b_velocity_flag = 1,
      b_velocity_data = (8, 0, 12),
      b_chargeback_id = ''cb_001'', b_dispute_date = (25, 20), b_reason_code = ''4855'',
      b_dispute_type = ''fraud'', b_issuing_bank = ''Chase Bank'',
      b_chargeback_amount = 1249.99, b_analyst_id = ''analyst_001'', b_status = ''open'',
      b_opened_at = (20, 18), b_closed_at = None, b_outcome = None,
      b_notes = ''Cardholder reports card stolen. Transaction from unusual location. Multiple high-value transactions in 24h.'',
      b_fraud_type = ''true_fraud''\<rparr>,
     \<lparr>b_customer_id = ''cust_002'', b_merchant_id = ''merch_002'', b_amount = 899.5,
      b_payment_method = ''mastercard'', b_card_last_4 = ''5432'', b_transaction_date = (28, 23),
      b_avs_check = ''Z'', b_cvv_check = ''N'', b_three_ds_used = 0, b_auth_code = ''AUTH67890'',
      b_ip_address = ''203.0.113.22'', b_device_fingerprint = ''DEV999002'',
      b_fraud_score = 88.2, b_risk_level = ''high'', b_velocity_flag = 1,
      b_velocity_data = (5, 0, 7),
      b_chargeback_id = ''cb_002'', b_dispute_date = (23, 18), b_reason_code = ''4853'',
      b_dispute_type = ''fraud'', b_issuing_bank = ''Bank of America'',
      b_chargeback_amount = 899.5, b_analyst_id = ''analyst_002'', b_status = ''open'',
      b_opened_at = (18, 16), b_closed_at = None, b_outcome = None,
      b_notes = ''Account takeover suspected. Login from new device and location. Customer denies all transactions.'',
      b_fraud_type = ''true_fraud''\<rparr>,
     \<lparr>b_customer_id = ''cust_003'', b_merchant_id = ''merch_001'', b_amount = 299.99,
      b_payment_method = ''visa'', b_card_last_4 = ''1234'', b_transaction_date = (45, 40),
      b_avs_check = ''Y'', b_cvv_check = ''Y'', b_three_ds_used = 1, b_auth_code = ''AUTH11111'',
      b_ip_address = ''192.168.1.100'', b_device_fingerprint = ''DEV123456'',
      b_fraud_score = 15, b_risk_level = ''low'', b_velocity_flag = 0,
      b_velocity_data = (1, 5, 2),
      b_chargeback_id = ''cb_003'', b_dispute_date = (35, 30), b_reason_code = ''4855'',
      b_dispute_type = ''service_not_provided'', b_issuing_bank = ''Wells Fargo'',
      b_chargeback_amount = 299.99, b_analyst_id = ''analyst_003'', b_status = ''open'',
      b_opened_at = (30, 28), b_closed_at = None, b_outcome = None,
      b_notes = ''Customer claims item never received. Tracking shows delivered. Customer has history of similar claims.'',
      b_fraud_type = ''friendly_fraud''\<rparr>,
     \<lparr>b_customer_id = ''cust_004'', b_merchant_id = ''merch_003'', b_amount = 549.99,
      b_payment_method = ''amex'', b_card_last_4 = ''5678'', b_transaction_date = (60, 55),
      b_avs_check = ''Y'', b_cvv_check = ''Y'', b_three_ds_used = 1, b_auth_code = ''AUTH22222'',
      b_ip_address = ''192.168.1.101'', b_device_fingerprint = ''DEV123457'',
      b_fraud_score = 12.5, b_risk_level = ''low'', b_velocity_flag = 0,
      b_velocity_data = (1, 8, 3),
      b_chargeback_id = ''cb_004'', b_dispute_date = (50, 45), b_reason_code = ''4855'',
      b_dispute_type = ''service_not_provided'', b_issuing_bank = ''Citi Bank'',
      b_chargeback_amount = 549.99, b_analyst_id = ''analyst_004'', b_status = ''open'',
      b_opened_at = (45, 43), b_closed_at = None, b_outcome = None,
      b_notes = ''Customer claims product defective. Merchant provided refund but customer filed chargeback anyway.'',
      b_fraud_type = ''friendly_fraud''\<rparr>,
     \<lparr>b_customer_id = ''cust_005'', b_merchant_id = ''merch_002'', b_amount = 79.99,
      b_payment_method = ''visa'', b_card_last_4 = ''9012'', b_transaction_date = (90, 85),
      b_avs_check = ''Y'', b_cvv_check = ''Y'', b_three_ds_used = 1, b_auth_code = ''AUTH33333'',
      b_ip_address = ''192.168.1.102'', b_device_fingerprint = ''DEV123458'',
      b_fraud_score = 10, b_risk_level = ''low'', b_velocity_flag = 0,
      b_velocity_data = (1, 12, 1),
      b_chargeback_id = ''cb_005'', b_dispute_date = (80, 75), b_reason_code = ''4855'',
      b_dispute_type = ''service_not_provided'', b_issuing_bank = ''Chase Bank'',
      b_chargeback_amount = 79.99, b_analyst_id = ''analyst_005'', b_status = ''open'',
      b_opened_at = (75, 73), b_closed_at = None, b_outcome = None,
      b_notes = ''Customer cancelled subscription but was charged. Claims cancellation before billing cycle.'',
      b_fraud_type = ''friendly_fraud''\<rparr>,
     \<lparr>b_customer_id = ''cust_006'', b_merchant_id = ''merch_004'', b_amount = 199.99,
      b_payment_method = ''mastercard'', b_card_last_4 = ''3456'', b_transaction_date = (40, 35),
      b_avs_check = ''Y'', b_cvv_check = ''Y'', b_three_ds_used = 1, b_auth_code = ''AUTH44444'',
      b_ip_address = ''192.168.1.103'', b_device_fingerprint = ''DEV123459'',
      b_fraud_score = 18, b_risk_level = ''low'', b_velocity_flag = 0,
      b_velocity_data = (1, 6, 4),
      b_chargeback_id = ''cb_006'', b_dispute_date = (30, 25), b_reason_code = ''4855'',
      b_dispute_type = ''fraud'', b_issuing_bank = ''Bank of America'',
      b_chargeback_amount = 199.99, b_analyst_id = ''analyst_006'', b_status = ''open'',
      b_opened_at = (25, 23), b_closed_at = None, b_outcome = None,
      b_notes = ''Customer claims unauthorized transaction. Same IP, device, and shipping address. Likely family member.'',
      b_fraud_type = ''friendly_fraud''\<rparr>,
     \<lparr>b_customer_id = ''cust_001'', b_merchant_id = ''merch_003'', b_amount = 149.99,
      b_payment_method = ''visa'', b_card_last_4 = ''4521'', b_transaction_date = (20, 18),
      b_avs_check = ''Y'', b_cvv_check = ''Y'', b_three_ds_used = 1, b_auth_code = ''AUTH66666'',
      b_ip_address = ''192.168.1.100'', b_device_fingerprint = ''DEV123456'',
      b_fraud_score = 5, b_risk_level = ''low'', b_velocity_flag = 0,
      b_velocity_data = (1, 5, 2),
      b_chargeback_id = ''cb_007'', b_dispute_date = (15, 12), b_reason_code = ''4837'',
      b_dispute_type = ''duplicate'', b_issuing_bank = ''Chase Bank'',
      b_chargeback_amount = 149.99, b_analyst_id = ''analyst_007'', b_status = ''open'',
      b_opened_at = (12, 10), b_closed_at = None, b_outcome = None,
      b_notes = ''Customer charged twice for same purchase. Merchant confirmed duplicate. Refund processed.'',
      b_fraud_type = ''merchant_error''\<rparr>,
     \<lparr>b_customer_id = ''cust_002'', b_merchant_id = ''merch_002'', b_amount = 249.99,
      b_payment_method = ''mastercard'', b_card_last_4 = ''5432'', b_transaction_date = (25, 22),
      b_avs_check = ''Y'', b_cvv_check = ''Y'', b_three_ds_used = 1, b_auth_code = ''AUTH77777'',
      b_ip_address = ''192.168.1.101'', b_device_fingerprint = ''DEV123457'',
      b_fraud_score = 8, b_risk_level = ''low'', b_velocity_flag = 0,
      b_velocity_data = (1, 8, 3),
      b_chargeback_id = ''cb_008'', b_dispute_date = (18, 15), b_reason_code = ''4837'',
      b_dispute_type = ''duplicate'', b_issuing_bank = ''Bank of America'',
      b_chargeback_amount = 249.99, b_analyst_id = ''analyst_008'', b_status = ''open'',
      b_opened_at = (15, 13), b_closed_at = None, b_outcome = None,
      b_notes = ''Customer ordered for $99.99 but charged $249.99. Merchant pricing error. Partial refund issued.'',
      b_fraud_type = ''merchant_error''\<rparr>,
     \<lparr>b_customer_id = ''cust_003'', b_merchant_id = ''merch_001'', b_amount = 179.99,
      b_payment_method = ''visa'', b_card_last_4 = ''1234'', b_transaction_date = (70, 65),
      b_avs_check = ''Y'', b_cvv_check = ''Y'', b_three_ds_used = 1, b_auth_code = ''AUTH88888'',
      b_ip_address = ''192.168.1.100'', b_device_fingerprint = ''DEV123456'',
      b_fraud_score = 12, b_risk_level = ''low'', b_velocity_flag = 0,
      b_velocity_data = (1, 5, 2),
      b_chargeback_id = ''cb_009'', b_dispute_date = (60, 55), b_reason_code = ''4855'',
      b_dispute_type = ''fraud'', b_issuing_bank = ''Wells Fargo'',
      b_chargeback_amount = 179.99, b_analyst_id = ''analyst_009'', b_status = ''won'',
      b_opened_at = (55, 53), b_closed_at = Some (40, 38), b_outcome = Some ''won'',
      b_notes = ''Customer claimed unauthorized. Merchant provided proof: same IP, device, shipping address, email confirmation. Chargeback reversed.'',
      b_fraud_type = ''not_guilty''\<rparr>,
     \<lparr>b_customer_id = ''cust_004'', b_merchant_id = ''merch_002'', b_amount = 49.99,
      b_payment_method = ''amex'', b_card_last_4 = ''5678'', b_transaction_date = (85, 80),
      b_avs_check = ''Y'', b_cvv_check = ''Y'', b_three_ds_used = 1, b_auth_code = ''AUTH99999'',
      b_ip_address = ''192.168.1.101'', b_device_fingerprint = ''DEV123457'',
      b_fraud_score = 10, b_risk_level = ''low'', b_velocity_flag = 0,
      b_velocity_data = (1, 8, 3),
      b_chargeback_id = ''cb_010'', b_dispute_date = (75, 70), b_reason_code = ''4855'',
      b_dispute_type = ''service_not_provided'', b_issuing_bank = ''Citi Bank'',
      b_chargeback_amount = 49.99, b_analyst_id = ''analyst_010'', b_status = ''won'',
      b_opened_at = (70, 68), b_closed_at = Some (55, 53), b_outcome = Some ''won'',
      b_notes = ''Customer claimed unauthorized subscription. Merchant provided signed TOS, agreement, 6 months usage logs. Chargeback reversed.'',
      b_fraud_type = ''not_guilty''\<rparr>,
     \<lparr>b_customer_id = ''cust_005'', b_merchant_id = ''merch_003'', b_amount = 89.99,
      b_payment_method = ''visa'', b_card_last_4 = ''9012'', b_transaction_date = (50, 45),
      b_avs_check = ''Y'', b_cvv_check = ''Y'', b_three_ds_used = 1, b_auth_code = ''AUTH10101'',
      b_ip_address = ''192.168.1.102'', b_device_fingerprint = ''DEV123458'',
      b_fraud_score = 8, b_risk_level = ''low'', b_velocity_flag = 0,
      b_velocity_data = (1, 12, 1),
      b_chargeback_id = ''cb_011'', b_dispute_date = (40, 35), b_reason_code = ''4855'',
      b_dispute_type = ''service_not_provided'', b_issuing_bank = ''Chase Bank'',
      b_chargeback_amount = 89.99, b_analyst_id = ''analyst_011'', b_status = ''won'',
      b_opened_at = (35, 33), b_closed_at = Some (20, 18), b_outcome = Some ''won'',
      b_notes = ''Customer claimed digital product not received. Merchant provided delivery confirmation, download logs, IP match, usage analytics. Chargeback reversed.'',
      b_fraud_type = ''not_guilty''\<rparr>,
     \<lparr>b_customer_id = ''cust_006'', b_merchant_id = ''merch_004'', b_amount = 299.99,
      b_payment_method = ''mastercard'', b_card_last_4 = ''3456'', b_transaction_date = (65, 60),
      b_avs_check = ''Y'', b_cvv_check = ''Y'', b_three_ds_used = 1, b_auth_code = ''AUTH20202'',
      b_ip_address = ''192.168.1.103'', b_device_fingerprint = ''DEV123459'',
      b_fraud_score = 15, b_risk_level = ''low'', b_velocity_flag = 0,
      b_velocity_data = (1, 6, 4),
      b_chargeback_id = ''cb_012'', b_dispute_date = (55, 50), b_reason_code = ''4855'',
      b_dispute_type = ''service_not_provided'', b_issuing_bank = ''Bank of America'',
      b_chargeback_amount = 299.99, b_analyst_id = ''analyst_012'', b_status = ''won'',
      b_opened_at = (50, 48), b_closed_at = Some (35, 33), b_outcome = Some ''won'',
      b_notes = ''Customer claimed defective. Merchant provided return policy, photos of used item, expired return window (45 vs 30 days). Chargeback reversed.'',
      b_fraud_type = ''not_guilty''\<rparr>,
     \<lparr>b_customer_id = ''cust_007'', b_merchant_id = ''merch_001'', b_amount = 399.99,
      b_payment_method = ''visa'', b_card_last_4 = ''7890'', b_transaction_date = (55, 50),
      b_avs_check = ''Y'', b_cvv_check = ''Y'', b_three_ds_used = 1, b_auth_code = ''AUTH30303'',
      b_ip_address = ''192.168.1.104'', b_device_fingerprint = ''DEV123460'',
      b_fraud_score = 11, b_risk_level = ''low'', b_velocity_flag = 0,
      b_velocity_data = (1, 10, 2),
      b_chargeback_id = ''cb_013'', b_dispute_date = (45, 40), b_reason_code = ''4855'',
      b_dispute_type = ''service_not_provided'', b_issuing_bank = ''Wells Fargo'',
      b_chargeback_amount = 399.99, b_analyst_id = ''analyst_013'', b_status = ''won'',
      b_opened_at = (40, 38), b_closed_at = Some (25, 23), b_outcome = Some ''won'',
      b_notes = ''Customer claimed not received. Merchant provided delivery confirmation, signature, GPS tracking. Chargeback reversed.'',
      b_fraud_type = ''not_guilty''\<rparr>,
     \<lparr>b_customer_id = ''cust_003'', b_merchant_id = ''merch_002'', b_amount = 675.5,
      b_payment_method = ''visa'', b_card_last_4 = ''1234'', b_transaction_date = (42, 38),
      b_avs_check = ''N'', b_cvv_check = ''N'', b_three_ds_used = 0, b_auth_code = ''AUTH45678'',
      b_ip_address = ''198.51.100.10'', b_device_fingerprint = ''DEV999003'',
      b_fraud_score = 92.3, b_risk_level = ''high'', b_velocity_flag = 1,
      b_velocity_data = (6, 0, 9),
      b_chargeback_id = ''cb_014'', b_dispute_date = (38, 33), b_reason_code = ''4855'',
      b_dispute_type = ''fraud'', b_issuing_bank = ''Wells Fargo'',
      b_chargeback_amount = 675.5, b_analyst_id = ''analyst_014'', b_status = ''open'',
      b_opened_at = (33, 31), b_closed_at = None, b_outcome = None,
      b_notes = ''Card skimming detected. Transaction from compromised terminal. Multiple unauthorized transactions from same card.'',
      b_fraud_type = ''true_fraud''\<rparr>,
     \<lparr>b_customer_id = ''cust_001'', b_merchant_id = ''merch_004'', b_amount = 1125,
      b_payment_method = ''visa'', b_card_last_4 = ''4521'', b_transaction_date = (50, 45),
      b_avs_check = ''N'', b_cvv_check = ''N'', b_three_ds_used = 0, b_auth_code = ''AUTH56789'',
      b_ip_address = ''172.217.12.46'', b_device_fingerprint = ''DEV999004'',
      b_fraud_score = 89.7, b_risk_level = ''high'', b_velocity_flag = 1,
      b_velocity_data = (4, 0, 6),
      b_chargeback_id = ''cb_015'', b_dispute_date = (45, 40), b_reason_code = ''4855'',
      b_dispute_type = ''fraud'', b_issuing_bank = ''Chase Bank'',
      b_chargeback_amount = 1125, b_analyst_id = ''analyst_015'', b_status = ''open'',
      b_opened_at = (40, 38), b_closed_at = None, b_outcome = None,
      b_notes = ''Card Not Present (CNP) fraud. Card details stolen. Transaction from unusual location. Customer reported card lost.'',
      b_fraud_type = ''true_fraud''\<rparr>,
     \<lparr>b_customer_id = ''cust_007'', b_merchant_id = ''merch_001'', b_amount = 825.75,
      b_payment_method = ''mastercard'', b_card_last_4 = ''7890'', b_transaction_date = (55, 50),
      b_avs_check = ''Z'', b_cvv_check = ''N'', b_three_ds_used = 0, b_auth_code = ''AUTH67891'',
      b_ip_address = ''104.248.90.2'', b_device_fingerprint = ''DEV999005'',
      b_fraud_score = 91.2, b_risk_level = ''high'', b_velocity_flag = 1,
      b_velocity_data = (7, 0, 11),
      b_chargeback_id = ''cb_016'', b_dispute_date = (50, 45), b_reason_code = ''4853'',
      b_dispute_type = ''fraud'', b_issuing_bank = ''Wells Fargo'',
      b_chargeback_amount = 825.75, b_analyst_id = ''analyst_016'', b_status = ''open'',
      b_opened_at = (45, 43), b_closed_at = None, b_outcome = None,
      b_notes = ''Synthetic identity fraud suspected. Account opened recently with minimal history. High-value transaction from new device.'',
      b_fraud_type = ''true_fraud''\<rparr>,
     \<lparr>b_customer_id = ''cust_003'', b_merchant_id = ''merch_003'', b_amount = 425.99,
      b_payment_method = ''visa'', b_card_last_4 = ''1234'', b_transaction_date = (120, 115),
      b_avs_check = ''Y'', b_cvv_check = ''Y'', b_three_ds_used = 1, b_auth_code = ''AUTH78901'',
      b_ip_address = ''192.168.1.100'', b_device_fingerprint = ''DEV123456'',
      b_fraud_score = 14.5, b_risk_level = ''low'', b_velocity_flag = 0,
      b_velocity_data = (1, 5, 2),
      b_chargeback_id = ''cb_017'', b_dispute_date = (110, 105), b_reason_code = ''4855'',
      b_dispute_type = ''service_not_provided'', b_issuing_bank = ''Wells Fargo'',
      b_chargeback_amount = 425.99, b_analyst_id = ''analyst_017'', b_status = ''won'',
      b_opened_at = (105, 103), b_closed_at = Some (90, 88), b_outcome = Some ''won'',
      b_notes = ''Customer claims item never received. Tracking shows delivered. Customer has 3 previous 'item not received' claims. Chargeback reversed in favor of merchant.'',
      b_fraud_type = ''friendly_fraud''\<rparr>,
     \<lparr>b_customer_id = ''cust_005'', b_merchant_id = ''merch_001'', b_amount = 99.99,
      b_payment_method = ''visa'', b_card_last_4 = ''9012'', b_transaction_date = (180, 175),
      b_avs_check = ''Y'', b_cvv_check = ''Y'', b_three_ds_used = 1, b_auth_code = ''AUTH89012'',
      b_ip_address = ''192.168.1.102'', b_device_fingerprint = ''DEV123458'',
      b_fraud_score = 11, b_risk_level = ''low'', b_velocity_flag = 0,
      b_velocity_data = (1, 12, 1),
      b_chargeback_id = ''cb_018'', b_dispute_date = (170, 165), b_reason_code = ''4855'',
      b_dispute_type = ''service_not_provided'', b_issuing_bank = ''Chase Bank'',
      b_chargeback_amount = 99.99, b_analyst_id = ''analyst_018'', b_status = ''won'',
      b_opened_at = (165, 163), b_closed_at = Some (150, 148), b_outcome = Some ''won'',
      b_notes = ''Customer claims subscription cancelled but was charged. Previous subscription dispute history. Merchant provided evidence, chargeback reversed.'',
      b_fraud_type = ''friendly_fraud''\<rparr>,
     \<lparr>b_customer_id = ''cust_004'', b_merchant_id = ''merch_004'', b_amount = 375.5,
      b_payment_method = ''amex'', b_card_last_4 = ''5678'', b_transaction_date = (200, 195),
      b_avs_check = ''Y'', b_cvv_check = ''Y'', b_three_ds_used = 1, b_auth_code = ''AUTH90123'',
      b_ip_address = ''192.168.1.101'', b_device_fingerprint = ''DEV123457'',
      b_fraud_score = 13, b_risk_level = ''low'', b_velocity_flag = 0,
      b_velocity_data = (1, 8, 3),
      b_chargeback_id = ''cb_019'', b_dispute_date = (190, 185), b_reason_code = ''4855'',
      b_dispute_type = ''service_not_provided'', b_issuing_bank = ''Citi Bank'',
      b_chargeback_amount = 375.5, b_analyst_id = ''analyst_019'', b_status = ''won'',
      b_opened_at = (185, 183), b_closed_at = Some (170, 168), b_outcome = Some ''won'',
      b_notes = ''Customer claims product defective. Merchant provided refund but customer filed chargeback. Pattern of quality disputes. Chargeback reversed.'',
      b_fraud_type = ''friendly_fraud''\<rparr>,
     \<lparr>b_customer_id = ''cust_006'', b_merchant_id = ''merch_002'', b_amount = 275.25,
      b_payment_method = ''mastercard'', b_card_last_4 = ''3456'', b_transaction_date = (150, 145),
      b_avs_check = ''Y'', b_cvv_check = ''Y'', b_three_ds_used = 1, b_auth_code = ''AUTH01234'',
      b_ip_address = ''192.168.1.103'', b_device_fingerprint = ''DEV123459'',
      b_fraud_score = 16.5, b_risk_level = ''low'', b_velocity_flag = 0,
      b_velocity_data = (1, 6, 4),
      b_chargeback_id = ''cb_020'', b_dispute_date = (140, 135), b_reason_code = ''4855'',
      b_dispute_type = ''fraud'', b_issuing_bank = ''Bank of America'',
      b_chargeback_amount = 275.25, b_analyst_id = ''analyst_020'', b_status = ''won'',
      b_opened_at = (135, 133), b_closed_at = Some (120, 118), b_outcome = Some ''won'',
      b_notes = ''Customer claims unauthorized. Same IP, device, and shipping address as previous orders. Likely family member. Previous similar claim. Chargeback reversed.'',
      b_fraud_type = ''friendly_fraud''\<rparr>,
     \<lparr>b_customer_id = ''cust_001'', b_merchant_id = ''merch_002'', b_amount = 189.99,
      b_payment_method = ''visa'', b_card_last_4 = ''4521'', b_transaction_date = (100, 95),
      b_avs_check = ''Y'', b_cvv_check = ''Y'', b_three_ds_used = 1, b_auth_code = ''AUTH12346'',
      b_ip_address = ''192.168.1.100'', b_device_fingerprint = ''DEV123456'',
      b_fraud_score = 6, b_risk_level = ''low'', b_velocity_flag = 0,
      b_velocity_data = (1, 5, 2),
      b_chargeback_id = ''cb_021'', b_dispute_date = (90, 85), b_reason_code = ''4837'',
      b_dispute_type = ''duplicate'', b_issuing_bank = ''Chase Bank'',
      b_chargeback_amount = 189.99, b_analyst_id = ''analyst_021'', b_status = ''lost'',
      b_opened_at = (85, 83), b_closed_at = Some (75, 73), b_outcome = Some ''lost'',
      b_notes = ''Payment processing error caused duplicate authorization. Merchant confirmed error. Refund processed. Chargeback upheld in favor of customer.'',
      b_fraud_type = ''merchant_error''\<rparr>,
     \<lparr>b_customer_id = ''cust_002'', b_merchant_id = ''merch_003'', b_amount = 319.99,
      b_payment_method = ''mastercard'', b_card_last_4 = ''5432'', b_transaction_date = (130, 125),
      b_avs_check = ''Y'', b_cvv_check = ''Y'', b_three_ds_used = 1, b_auth_code = ''AUTH23457'',
      b_ip_address = ''192.168.1.101'', b_device_fingerprint = ''DEV123457'',
      b_fraud_score = 7.5, b_risk_level = ''low'', b_velocity_flag = 0,
      b_velocity_data = (1, 8, 3),
      b_chargeback_id = ''cb_022'', b_dispute_date = (120, 115), b_reason_code = ''4837'',
      b_dispute_type = ''duplicate'', b_issuing_bank = ''Bank of America'',
      b_chargeback_amount = 319.99, b_analyst_id = ''analyst_022'', b_status = ''lost'',
      b_opened_at = (115, 113), b_closed_at = Some (105, 103), b_outcome = Some ''lost'',
      b_notes = ''Customer returned item and refund was authorized but not processed due to system error. Merchant acknowledged and processed refund. Chargeback upheld in favor of customer.'',
      b_fraud_type = ''merchant_error''\<rparr>,
     \<lparr>b_customer_id = ''cust_007'', b_merchant_id = ''merch_004'', b_amount = 225,
      b_payment_method = ''visa'', b_card_last_4 = ''7890'', b_transaction_date = (75, 70),
      b_avs_check = ''Y'', b_cvv_check = ''Y'', b_three_ds_used = 1, b_auth_code = ''AUTH34568'',
      b_ip_address = ''192.168.1.104'', b_device_fingerprint = ''DEV123460'',
      b_fraud_score = 9, b_risk_level = ''low'', b_velocity_flag = 0,
      b_velocity_data = (1, 10, 2),
      b_chargeback_id = ''cb_023'', b_dispute_date = (65, 60), b_reason_code = ''4837'',
      b_dispute_type = ''duplicate'', b_issuing_bank = ''Wells Fargo'',
      b_chargeback_amount = 225, b_analyst_id = ''analyst_023'', b_status = ''lost'',
      b_opened_at = (60, 58), b_closed_at = Some (50, 48), b_outcome = Some ''lost'',
      b_notes = ''Authorization hold from cancelled order not released. Merchant confirmed error and released hold. Customer charged twice. Chargeback upheld in favor of customer.'',
      b_fraud_type = ''merchant_error''\<rparr>]"

definition block_transaction :: "block \<Rightarrow> string \<Rightarrow> rng \<Rightarrow> transaction" where
  "block_transaction b tx_id g =
     \<lparr>transaction_id = Some tx_id, tx_customer_id = b_customer_id b,
      tx_merchant_id = b_merchant_id b, amount = b_amount b, currency = Some ''USD'',
      payment_method = Some (b_payment_method b), card_last_4 = Some (b_card_last_4 b),
      transaction_date =
        Some (random_date (fst (b_transaction_date b)) (snd (b_transaction_date b)) (g 0)),
      tx_status = Some ''disputed'', avs_check = Some (b_avs_check b),
      cvv_check = Some (b_cvv_check b), three_ds_used = Some (b_three_ds_used b),
      auth_code = Some (b_auth_code b), ip_address = Some (b_ip_address b),
      device_fingerprint = Some (b_device_fingerprint b),
      fraud_score = Some (b_fraud_score b), risk_level = Some (b_risk_level b),
      velocity_flag = Some (b_velocity_flag b), velocity_data = Some (b_velocity_data b),
      risk_assessed_at =
        Some (random_date (fst (b_transaction_date b)) (snd (b_transaction_date b)) (g 1))\<rparr>"

definition block_case :: "block \<Rightarrow> string \<Rightarrow> rng \<Rightarrow> cb_case" where
  "block_case b tx_id g =
     \<lparr>case_chargeback_id = b_chargeback_id b, case_transaction_id = tx_id,
      case_dispute_date = random_date (fst (b_dispute_date b)) (snd (b_dispute_date b)) (g 2),
      case_reason_code = b_reason_code b, case_dispute_type = b_dispute_type b,
      case_issuing_bank = b_issuing_bank b, case_chargeback_amount = b_chargeback_amount b,
      case_analyst_id = b_analyst_id b, case_status = b_status b,
      case_opened_at = random_date (fst (b_opened_at b)) (snd (b_opened_at b)) (g 3),
      case_closed_at =
        (case b_closed_at b of
           None \<Rightarrow> None
         | Some (start, end) \<Rightarrow> Some (random_date start end (g 4))),
      case_outcome = b_outcome b, case_notes = b_notes b,
      case_fraud_type = b_fraud_type b\<rparr>"

definition block_draws :: "block \<Rightarrow> nat" where
  "block_draws b = (case b_closed_at b of None \<Rightarrow> 4 | Some r \<Rightarrow> 5)"

fun create_cases ::
  "connection \<Rightarrow> block list \<Rightarrow> cb_case list \<Rightarrow> nat \<Rightarrow> rng \<Rightarrow> store
     \<Rightarrow> error + store \<times> cb_case list \<times> nat \<times> rng"
where
  "create_cases c [] cases k g s = Inr (s, cases, k, g)"
| "create_cases c (b # bs) cases k g s =
     (case insert_transaction c (block_transaction b (generate_id ''txn'' k) g) s of
        Inl e \<Rightarrow> Inl e
      | Inr s' \<Rightarrow>
          create_cases c bs (cases @ [block_case b (generate_id ''txn'' k) g]) (k + 1)
            (advance (block_draws b) g) s')"

text \<open>The loop that inserts all chargebacks: \<^verbatim>\<open>retrieval_request_date\<close> is \<^verbatim>\<open>None\<close>,
  \<^verbatim>\<open>response_deadline\<close> is \<^verbatim>\<open>random_date(30, 10)\<close>; \<^verbatim>\<open>fraud_type\<close> is not stored.\<close>

definition chargeback_row :: "cb_case \<Rightarrow> rng \<Rightarrow> chargeback" where
  "chargeback_row cb g =
     \<lparr>chargeback_id = Some (case_chargeback_id cb),
      cb_transaction_id = case_transaction_id cb,
      dispute_date = Some (case_dispute_date cb), reason_code = Some (case_reason_code cb),
      dispute_type = Some (case_dispute_type cb), issuing_bank = Some (case_issuing_bank cb),
      chargeback_amount = case_chargeback_amount cb, analyst_id = Some (case_analyst_id cb),
      status = Some (case_status cb), opened_at = Some (case_opened_at cb),
      closed_at = case_closed_at cb, outcome = case_outcome cb,
      retrieval_request_date = None, response_deadline = Some (random_date 30 10 (g 0)),
      cb_notes = Some (case_notes cb)\<rparr>"

fun insert_chargebacks ::
  "connection \<Rightarrow> cb_case list \<Rightarrow> rng \<Rightarrow> store \<Rightarrow> error + store \<times> rng"
where
  "insert_chargebacks c [] g s = Inr (s, g)"
| "insert_chargebacks c (cb # cbs) g s =
     (case insert_chargeback c (chargeback_row cb g) s of
        Inl e \<Rightarrow> Inl e
      | Inr s' \<Rightarrow> insert_chargebacks c cbs (advance 1 g) s')"

subsection \<open>Case events\<close>

text \<open>
  \<^verbatim>\<open>case_evidence\<close> maps a chargeback id to its authored events: the event type with a
  payload and a description. Evaluating the dictionary draws 88 dates for its payloads.
\<close>

definition case_evidence :: "(string \<times> (string \<times> event_body) list) list" where
  "case_evidence =
     [(''cb_001'',
       [(''support_ticket'', Authored ''cb_001'' 0),
        (''transaction_analysis'', Authored ''cb_001'' 1),
        (''fraud_indicators'', Authored ''cb_001'' 2),
        (''velocity_check'', Authored ''cb_001'' 3),
        (''previous_dispute'', Authored ''cb_001'' 4)]),
      (''cb_002'',
       [(''support_ticket'', Authored ''cb_002'' 0),
        (''login_analysis'', Authored ''cb_002'' 1),
        (''fraud_indicators'', Authored ''cb_002'' 2),
        (''velocity_check'', Authored ''cb_002'' 3),
        (''previous_dispute'', Authored ''cb_002'' 4)]),
      (''cb_003'',
       [(''support_ticket'', Authored ''cb_003'' 0),
        (''shipping_evidence'', Authored ''cb_003'' 1), (''login'', Authored ''cb_003'' 2),
        (''refund'', Authored ''cb_003'' 3), (''previous_dispute'', Authored ''cb_003'' 4)]),
      (''cb_004'',
       [(''support_ticket'', Authored ''cb_004'' 0), (''refund'', Authored ''cb_004'' 1),
        (''product_evidence'', Authored ''cb_004'' 2), (''login'', Authored ''cb_004'' 3),
        (''previous_dispute'', Authored ''cb_004'' 4)]),
      (''cb_005'',
       [(''support_ticket'', Authored ''cb_005'' 0),
        (''subscription_evidence'', Authored ''cb_005'' 1), (''login'', Authored ''cb_005'' 2),
        (''refund'', Authored ''cb_005'' 3), (''previous_dispute'', Authored ''cb_005'' 4)]),
      (''cb_006'',
       [(''support_ticket'', Authored ''cb_006'' 0),
        (''transaction_analysis'', Authored ''cb_006'' 1), (''login'', Authored ''cb_006'' 2),
        (''fraud_indicators'', Authored ''cb_006'' 3),
        (''previous_dispute'', Authored ''cb_006'' 4)]),
      (''cb_007'',
       [(''support_ticket'', Authored ''cb_007'' 0),
        (''merchant_investigation'', Authored ''cb_007'' 1),
        (''refund'', Authored ''cb_007'' 2), (''login'', Authored ''cb_007'' 3),
        (''system_fix'', Authored ''cb_007'' 4)]),
      (''cb_008'',
       [(''support_ticket'', Authored ''cb_008'' 0),
        (''merchant_investigation'', Authored ''cb_008'' 1),
        (''refund'', Authored ''cb_008'' 2), (''login'', Authored ''cb_008'' 3),
        (''system_fix'', Authored ''cb_008'' 4)]),
      (''cb_009'',
       [(''support_ticket'', Authored ''cb_009'' 0),
        (''transaction_evidence'', Authored ''cb_009'' 1), (''login'', Authored ''cb_009'' 2),
        (''delivery_evidence'', Authored ''cb_009'' 3),
        (''previous_dispute'', Authored ''cb_009'' 4)]),
      (''cb_010'',
       [(''support_ticket'', Authored ''cb_010'' 0),
        (''subscription_evidence'', Authored ''cb_010'' 1), (''login'', Authored ''cb_010'' 2),
        (''refund'', Authored ''cb_010'' 3), (''previous_dispute'', Authored ''cb_010'' 4)]),
      (''cb_011'',
       [(''support_ticket'', Authored ''cb_011'' 0),
        (''delivery_evidence'', Authored ''cb_011'' 1),
        (''usage_analytics'', Authored ''cb_011'' 2), (''login'', Authored ''cb_011'' 3),
        (''previous_dispute'', Authored ''cb_011'' 4)]),
      (''cb_012'',
       [(''support_ticket'', Authored ''cb_012'' 0),
        (''return_policy_evidence'', Authored ''cb_012'' 1),
        (''product_evidence'', Authored ''cb_012'' 2), (''refund'', Authored ''cb_012'' 3),
        (''previous_dispute'', Authored ''cb_012'' 4)]),
      (''cb_013'',
       [(''support_ticket'', Authored ''cb_013'' 0),
        (''delivery_evidence'', Authored ''cb_013'' 1), (''login'', Authored ''cb_013'' 2),
        (''refund'', Authored ''cb_013'' 3), (''previous_dispute'', Authored ''cb_013'' 4)]),
      (''cb_014'',
       [(''support_ticket'', Authored ''cb_014'' 0),
        (''transaction_analysis'', Authored ''cb_014'' 1),
        (''fraud_indicators'', Authored ''cb_014'' 2),
        (''velocity_check'', Authored ''cb_014'' 3),
        (''previous_dispute'', Authored ''cb_014'' 4)]),
      (''cb_015'',
       [(''support_ticket'', Authored ''cb_015'' 0),
        (''transaction_analysis'', Authored ''cb_015'' 1),
        (''fraud_indicators'', Authored ''cb_015'' 2),
        (''velocity_check'', Authored ''cb_015'' 3),
        (''previous_dispute'', Authored ''cb_015'' 4)]),
      (''cb_016'',
       [(''support_ticket'', Authored ''cb_016'' 0),
        (''transaction_analysis'', Authored ''cb_016'' 1),
        (''fraud_indicators'', Authored ''cb_016'' 2),
        (''velocity_check'', Authored ''cb_016'' 3),
        (''previous_dispute'', Authored ''cb_016'' 4)]),
      (''cb_017'',
       [(''support_ticket'', Authored ''cb_017'' 0),
        (''shipping_evidence'', Authored ''cb_017'' 1), (''login'', Authored ''cb_017'' 2),
        (''previous_dispute'', Authored ''cb_017'' 3)]),
      (''cb_018'',
       [(''support_ticket'', Authored ''cb_018'' 0),
        (''subscription_evidence'', Authored ''cb_018'' 1), (''login'', Authored ''cb_018'' 2),
        (''previous_dispute'', Authored ''cb_018'' 3)]),
      (''cb_019'',
       [(''support_ticket'', Authored ''cb_019'' 0), (''refund'', Authored ''cb_019'' 1),
        (''product_evidence'', Authored ''cb_019'' 2),
        (''previous_dispute'', Authored ''cb_019'' 3)]),
      (''cb_020'',
       [(''support_ticket'', Authored ''cb_020'' 0),
        (''transaction_analysis'', Authored ''cb_020'' 1), (''login'', Authored ''cb_020'' 2),
        (''previous_dispute'', Authored ''cb_020'' 3)]),
      (''cb_021'',
       [(''support_ticket'', Authored ''cb_021'' 0),
        (''merchant_investigation'', Authored ''cb_021'' 1),
        (''refund'', Authored ''cb_021'' 2), (''previous_dispute'', Authored ''cb_021'' 3)]),
      (''cb_022'',
       [(''support_ticket'', Authored ''cb_022'' 0),
        (''merchant_investigation'', Authored ''cb_022'' 1),
        (''refund'', Authored ''cb_022'' 2), (''previous_dispute'', Authored ''cb_022'' 3)]),
      (''cb_023'',
       [(''support_ticket'', Authored ''cb_023'' 0),
        (''merchant_investigation'', Authored ''cb_023'' 1),
        (''refund'', Authored ''cb_023'' 2), (''system_fix'', Authored ''cb_023'' 3),
        (''previous_dispute'', Authored ''cb_023'' 4)])]"

definition case_evidence_draws :: nat where
  "case_evidence_draws = 88"

text \<open>\<^verbatim>\<open>d.get(k, [])\<close> on a dictionary written as a list of its items.\<close>

definition get_or_empty :: "(string \<times> 'a list) list \<Rightarrow> string \<Rightarrow> 'a list" where
  "get_or_empty d k = (case map_of d k of None \<Rightarrow> [] | Some v \<Rightarrow> v)"

text \<open>The fallback dictionary \<^verbatim>\<open>generic_events\<close>, built inside the loop for a case without
  authored events: building it draws the four ticket numbers.\<close>

definition generic_events :: "cb_case \<Rightarrow> rng \<Rightarrow> (string \<times> (string \<times> event_body) list) list" where
  "generic_events cb g =
     [(''true_fraud'',
       [(''support_ticket'', TicketId (randint 10000 99999 (g 0)) ''Customer reported fraud.''),
        (''login'', LoginIp ''192.168.1.100'' ''Customer logged in from unusual location.'')]),
      (''friendly_fraud'',
       [(''support_ticket'', TicketId (randint 10000 99999 (g 1)) ''Customer contacted support.''),
        (''refund'', RefundAmount (case_chargeback_amount cb) ''Merchant offered refund.'')]),
      (''merchant_error'',
       [(''support_ticket'', TicketId (randint 10000 99999 (g 2)) ''Customer reported error.''),
        (''refund'', RefundAmount (case_chargeback_amount cb) ''Merchant processed refund.'')]),
      (''not_guilty'',
       [(''support_ticket'', TicketId (randint 10000 99999 (g 3)) ''Chargeback received.''),
        (''refund'', EvidenceSubmitted True ''Evidence package submitted.'')])]"

fun insert_events ::
  "connection \<Rightarrow> string \<Rightarrow> (string \<times> event_body) list \<Rightarrow> rng \<Rightarrow> store \<Rightarrow> error + store \<times> rng"
where
  "insert_events c cb_id [] g s = Inr (s, g)"
| "insert_events c cb_id ((ty, body) # es) g s =
     (case insert_case_event c cb_id ty (Some (random_date 10 1 (g 0))) body s of
        Inl e \<Rightarrow> Inl e
      | Inr s' \<Rightarrow> insert_events c cb_id es (advance 1 g) s')"

text \<open>The events a case gets, and the stream left after choosing them. The loop over
  \<^verbatim>\<open>chargeback_cases\<close> takes the authored events of the case's id, or, when there are
  none, the generic events of its \<^verbatim>\<open>fraud_type\<close>; both branches insert the events the
  same way.\<close>

definition events_for ::
  "(string \<times> (string \<times> event_body) list) list \<Rightarrow> cb_case \<Rightarrow> rng
     \<Rightarrow> (string \<times> event_body) list \<times> rng"
where
  "events_for evidence cb g =
     (let events = get_or_empty evidence (case_chargeback_id cb)
      in if events = []
         then (get_or_empty (generic_events cb g) (case_fraud_type cb), advance 4 g)
         else (events, g))"

fun create_case_events ::
  "connection \<Rightarrow> (string \<times> (string \<times> event_body) list) list \<Rightarrow> cb_case list \<Rightarrow> rng \<Rightarrow> store
     \<Rightarrow> error + store \<times> rng"
where
  "create_case_events c evidence [] g s = Inr (s, g)"
| "create_case_events c evidence (cb # cbs) g s =
     (case events_for evidence cb g of (events, g1) \<Rightarrow>
        (case insert_events c (case_chargeback_id cb) events g1 s of
           Inl e \<Rightarrow> Inl e
         | Inr (s', g') \<Rightarrow> create_case_events c evidence cbs g' s'))"

subsection \<open>Customer statistics and the whole run\<close>

text \<open>The count of the join of chargebacks with transactions for one customer, and the
  \<^verbatim>\<open>UPDATE\<close> that stores it.\<close>

definition count_chargebacks_joined :: "store \<Rightarrow> string \<Rightarrow> nat" where
  "count_chargebacks_joined s cid =
     length [(b, t). b \<leftarrow> chargebacks s, t \<leftarrow> transactions s,
               transaction_id t = Some (cb_transaction_id b) \<and> tx_customer_id t = cid]"

definition set_total_chargebacks :: "string \<Rightarrow> nat \<Rightarrow> store \<Rightarrow> store" where
  "set_total_chargebacks cid n s =
     s\<lparr>customers :=
         map (\<lambda>r. if customer_id r = Some cid then r\<lparr>total_chargebacks := Some (int n)\<rparr> else r)
           (customers s)\<rparr>"

fun update_customer_statistics ::
  "(string \<times> string \<times> string \<times> string) list \<Rightarrow> store \<Rightarrow> store"
where
  "update_customer_statistics [] s = s"
| "update_customer_statistics ((cid, nm, mail, reg) # cs) s =
     update_customer_statistics cs (set_total_chargebacks cid (count_chargebacks_joined s cid) s)"

text \<open>Everything between the two commits: the rows written, and the list
  \<^verbatim>\<open>chargeback_cases\<close> as it stands at the end.\<close>

definition write_rows :: "connection \<Rightarrow> rng \<Rightarrow> store \<Rightarrow> error + store \<times> cb_case list" where
  "write_rows c g s =
     bind_result (create_merchants c merchants_data g s) (\<lambda>(s1, g1).
     bind_result (create_customers c customers_data g1 s1) (\<lambda>(s2, g2).
     bind_result (normal_transactions c customers_data 1 g2 s2) (\<lambda>(s3, k, g3).
     bind_result (create_cases c case_blocks [] k g3 s3) (\<lambda>(s4, cases, k', g4).
     bind_result (insert_chargebacks c cases g4 s4) (\<lambda>(s5, g5).
     bind_result (create_case_events c case_evidence cases (advance case_evidence_draws g5) s5)
       (\<lambda>(s6, g6).
     Inr (update_customer_statistics customers_data s6, cases)))))))"

text \<open>
  A run of \<^verbatim>\<open>seed_database\<close> ends in one of three ways: the file is missing (a message,
  nothing done); an exception leaves the function, and the file holds what was committed
  before; or the run completes, and the file holds the store written. The connection is
  the one \<^verbatim>\<open>sqlite3.connect\<close> returns: no \<^verbatim>\<open>PRAGMA\<close> is executed on it. The first commit
  follows the five \<^verbatim>\<open>DELETE\<close> statements, the second all the writing. Of the local
  variables the result keeps \<^verbatim>\<open>chargeback_cases\<close>, which the printed summary counts by
  \<^verbatim>\<open>fraud_type\<close>.
\<close>

datatype seed_result =
    NotFound
  | Failed error db_path
  | Seeded store "cb_case list"

definition seed_database :: "rng \<Rightarrow> db_path \<Rightarrow> seed_result" where
  "seed_database g p =
     (case p of
        None \<Rightarrow> NotFound
      | Some NoTables \<Rightarrow> Failed (OperationalError ''no such table: case_events'') p
      | Some (Tables s) \<Rightarrow>
          (case clear_existing_data connect s of
             Inl e \<Rightarrow> Failed e p
           | Inr s0 \<Rightarrow>
               (case write_rows connect g s0 of
                  Inl e \<Rightarrow> Failed e (Some (Tables s0))
                | Inr (s', cases) \<Rightarrow> Seeded s' cases)))"

subsection \<open>What a completed run wrote, stated as relations\<close>

text \<open>A disputed transaction and its case are written for a block when they are the
  block's two records for some transaction number and some state of the stream.\<close>

definition written_for :: "block \<Rightarrow> transaction \<times> cb_case \<Rightarrow> bool" where
  "written_for b p = (\<exists>k h. p = (block_transaction b (generate_id ''txn'' k) h,
                                  block_case b (generate_id ''txn'' k) h))"

text \<open>A chargeback row is the row of a case, for some \<^verbatim>\<open>response_deadline\<close>.\<close>

definition row_of_case :: "cb_case \<Rightarrow> chargeback \<Rightarrow> bool" where
  "row_of_case cb r = (\<exists>h. r = chargeback_row cb h)"

text \<open>Event rows are the events of a case when, read in order, they carry the case's
  id and the types and bodies of the events chosen for it, for some state of the stream.\<close>

definition events_of_case ::
  "(string \<times> (string \<times> event_body) list) list \<Rightarrow> cb_case \<Rightarrow> case_event list \<Rightarrow> bool" where
  "events_of_case evidence cb rows =
     (\<exists>h. map (\<lambda>e. (ev_chargeback_id e, event_type e, event_body e)) rows =
           map (\<lambda>(ty, body). (case_chargeback_id cb, ty, body)) (fst (events_for evidence cb h)))"

text \<open>The count the specification asks for, taken from the stored rows alone: the number
  of chargebacks whose transaction exists and belongs to the customer.\<close>

definition chargebacks_of_customer :: "store \<Rightarrow> string \<Rightarrow> nat" where
  "chargebacks_of_customer s cid =
     length (filter (\<lambda>b. list_ex (\<lambda>t. transaction_id t = Some (cb_transaction_id b) \<and>
                                       tx_customer_id t = cid) (transactions s))
               (chargebacks s))"

section \<open>Concrete inputs\<close>

definition sample_customer :: customer where
  "sample_customer =
     \<lparr>customer_id = Some ''cust_001'', name = ''Sarah Johnson'',
      email = Some ''sarah.j@email.com'', region = Some ''US'', created_at = Some 100,
      total_chargebacks = Some 0, total_refunds = Some 0\<rparr>"

definition sample_merchant :: merchant where
  "sample_merchant =
     \<lparr>merchant_id = Some ''merch_001'', merchant_name = ''TechStore Pro'',
      acquiring_bank = Some ''Chase Bank'', win_rate = Some 72.5,
      merchant_created_at = Some 100\<rparr>"

definition sample_transaction :: "string \<Rightarrow> string \<Rightarrow> string \<Rightarrow> transaction" where
  "sample_transaction tid cid mid =
     \<lparr>transaction_id = Some tid, tx_customer_id = cid, tx_merchant_id = mid,
      amount = 100, currency = Some ''USD'', payment_method = Some ''visa'',
      card_last_4 = Some ''4521'', transaction_date = Some 30, tx_status = Some ''disputed'',
      avs_check = Some ''Y'', cvv_check = Some ''Y'', three_ds_used = Some 1,
      auth_code = Some ''AUTH12345'', ip_address = Some ''192.168.1.100'',
      device_fingerprint = Some ''DEV123456'', fraud_score = Some 15, risk_level = Some ''low'',
      velocity_flag = Some 0, velocity_data = Some (1, 5, 2), risk_assessed_at = Some 30\<rparr>"

definition sample_chargeback :: "string \<Rightarrow> string \<Rightarrow> chargeback" where
  "sample_chargeback bid tid =
     \<lparr>chargeback_id = Some bid, cb_transaction_id = tid, dispute_date = Some 20,
      reason_code = Some ''4855'', dispute_type = Some ''fraud'',
      issuing_bank = Some ''Chase Bank'', chargeback_amount = 100,
      analyst_id = Some ''analyst_001'', status = Some ''open'', opened_at = Some 18,
      closed_at = None, outcome = None, retrieval_request_date = None,
      response_deadline = Some 10, cb_notes = None\<rparr>"

text \<open>A store with one customer, one merchant, one transaction between them and one
  chargeback that disputes it.\<close>

definition disputed_store :: store where
  "disputed_store =
     \<lparr>customers = [sample_customer], merchants = [sample_merchant],
      transactions = [sample_transaction ''txn_0001'' ''cust_001'' ''merch_001''],
      chargebacks = [sample_chargeback ''cb_001'' ''txn_0001''],
      case_events = [], case_events_seq = 0\<rparr>"


text \<open>The stream of raw outputs that are all zero: every choice takes the first value of
  its range.\<close>

definition zero_rng :: rng where
  "zero_rng = (\<lambda>i. 0)"

section \<open>Properties of the schema and of \<^verbatim>\<open>init_database\<close>\<close>

subsection \<open>Foreign keys\<close>

lemma insert_transaction_foreign_keys_on:
  assumes "foreign_keys c"
      and "\<not> has_parent (tx_customer_id r) (map customer_id (customers s)) \<or>
           \<not> has_parent (tx_merchant_id r) (map merchant_id (merchants s))"
  shows "\<exists>msg. insert_transaction c r s = Inl (IntegrityError msg)"
  using assms by (auto simp: insert_transaction_def)

lemma insert_chargeback_foreign_keys_on:
  assumes "foreign_keys c"
      and "\<not> has_parent (cb_transaction_id r) (map transaction_id (transactions s))"
  shows "\<exists>msg. insert_chargeback c r s = Inl (IntegrityError msg)"
  using assms by (auto simp: insert_chargeback_def)

text \<open>
  C1. Claimed: every insert of a Transaction whose customer or merchant does not exist,
  and every insert of a Chargeback whose transaction does not exist, fails with a
  constraint violation and leaves the row count as it was, on every connection that
  writes, the generator's included. The two lemmas above give this for a connection on
  which \<^verbatim>\<open>PRAGMA foreign_keys = ON\<close> was executed. \<^verbatim>\<open>seed_database\<close> opens its connection
  with \<^verbatim>\<open>sqlite3.connect\<close> and executes no such statement: there, on the initialized empty
  store, a Transaction for the customer \<^verbatim>\<open>cust_999\<close> and the merchant \<^verbatim>\<open>merch_999\<close> and a
  Chargeback for the transaction \<^verbatim>\<open>txn_9999\<close> are both accepted, and each table gains a row.
\<close>

theorem dangling_insert_accepted_without_pragma:
  "insert_transaction connect (sample_transaction ''txn_0001'' ''cust_999'' ''merch_999'')
       empty_store
     = Inr (empty_store\<lparr>transactions :=
              [sample_transaction ''txn_0001'' ''cust_999'' ''merch_999'']\<rparr>)
   \<and> insert_chargeback connect (sample_chargeback ''cb_001'' ''txn_9999'') empty_store
     = Inr (empty_store\<lparr>chargebacks := [sample_chargeback ''cb_001'' ''txn_9999'']\<rparr>)
   \<and> customers empty_store = [] \<and> merchants empty_store = []
   \<and> transactions empty_store = []"
  by (simp add: insert_transaction_def insert_chargeback_def connect_def key_taken_def
      empty_store_def)

subsection \<open>Initialization\<close>

text \<open>
  C2, as claimed: when the store already exists and no confirmation was given,
  \<^verbatim>\<open>init_database\<close> fails and does not overwrite the store. It does neither: run on the
  store \<open>disputed_store\<close> it returns normally, and the file then holds five empty tables.
\<close>

theorem init_database_overwrites_counterexample:
  "init_database (Some (Tables disputed_store)) = Inr (Some (Tables empty_store))
   \<and> customers disputed_store = [sample_customer]
   \<and> customers empty_store = []"
  by (simp add: init_database_def unlink_def open_database_def create_tables_def
      disputed_store_def empty_store_def)

text \<open>
  C2, amended: \<^verbatim>\<open>init_database\<close> asks for no confirmation. Whatever is at \<^verbatim>\<open>DB_PATH\<close>
  (nothing, a file without tables, or a store with data), it removes it, never fails
  on that account, and leaves a store whose five tables are empty.
\<close>

theorem init_database_always_fresh:
  "init_database p = Inr (Some (Tables empty_store))"
  by (simp add: init_database_def unlink_def open_database_def create_tables_def)

subsection \<open>Chargebacks per transaction\<close>

text \<open>
  C3, as claimed: a store that holds a Chargeback for transaction \<open>t\<close> rejects a second
  one. With foreign keys on, \<open>disputed_store\<close> accepts the chargeback \<^verbatim>\<open>cb_002\<close> for the
  transaction \<^verbatim>\<open>txn_0001\<close> that \<^verbatim>\<open>cb_001\<close> disputes already.
\<close>

theorem second_chargeback_counterexample:
  "insert_chargeback (pragma_foreign_keys_on connect) (sample_chargeback ''cb_002'' ''txn_0001'')
       disputed_store
     = Inr (disputed_store\<lparr>chargebacks :=
              [sample_chargeback ''cb_001'' ''txn_0001'',
               sample_chargeback ''cb_002'' ''txn_0001'']\<rparr>)"
  by (simp add: insert_chargeback_def pragma_foreign_keys_on_def connect_def key_taken_def
      has_parent_def disputed_store_def sample_chargeback_def sample_transaction_def)

text \<open>
  C3, amended: the schema puts no uniqueness on \<^verbatim>\<open>chargebacks.transaction_id\<close> (a foreign
  key and a plain index only). In a store that holds a Chargeback for transaction \<open>t\<close>,
  a second Chargeback for \<open>t\<close> is rejected with a constraint violation when its
  \<^verbatim>\<open>chargeback_id\<close> is that of an existing row; when its \<^verbatim>\<open>chargeback_id\<close> is new and \<open>t\<close>
  exists (or the connection does not check foreign keys), it is accepted and stored, so
  that \<open>t\<close> then has two chargebacks or more.
\<close>

theorem second_chargeback_needs_only_new_id:
  assumes "cb_transaction_id r \<in> set (map cb_transaction_id (chargebacks s))"
  shows "(key_taken (chargeback_id r) (map chargeback_id (chargebacks s)) \<longrightarrow>
            (\<exists>msg. insert_chargeback c r s = Inl (IntegrityError msg)))
       \<and> (\<not> key_taken (chargeback_id r) (map chargeback_id (chargebacks s)) \<and>
            (has_parent (cb_transaction_id r) (map transaction_id (transactions s)) \<or>
             \<not> foreign_keys c) \<longrightarrow>
            insert_chargeback c r s = Inr (s\<lparr>chargebacks := chargebacks s @ [r]\<rparr>) \<and>
            2 \<le> length (filter (\<lambda>x. cb_transaction_id x = cb_transaction_id r)
                          (chargebacks s @ [r])))"
proof -
  obtain x where x: "x \<in> set (chargebacks s)" "cb_transaction_id x = cb_transaction_id r"
    using assms by auto
  then have "filter (\<lambda>x. cb_transaction_id x = cb_transaction_id r) (chargebacks s) \<noteq> []"
    by (auto simp: filter_empty_conv)
  then have "1 \<le> length (filter (\<lambda>x. cb_transaction_id x = cb_transaction_id r) (chargebacks s))"
    by (cases "filter (\<lambda>x. cb_transaction_id x = cb_transaction_id r) (chargebacks s)") auto
  then show ?thesis
    by (auto simp: insert_chargeback_def)
qed

theorem second_chargeback_needs_only_new_id_witness:
  "cb_transaction_id (sample_chargeback ''cb_002'' ''txn_0001'')
     \<in> set (map cb_transaction_id (chargebacks disputed_store))
   \<and> \<not> key_taken (chargeback_id (sample_chargeback ''cb_002'' ''txn_0001''))
         (map chargeback_id (chargebacks disputed_store))
   \<and> has_parent ''txn_0001'' (map transaction_id (transactions disputed_store))
   \<and> insert_chargeback (pragma_foreign_keys_on connect)
         (sample_chargeback ''cb_002'' ''txn_0001'') disputed_store
       = Inr (disputed_store\<lparr>chargebacks := chargebacks disputed_store @
                [sample_chargeback ''cb_002'' ''txn_0001'']\<rparr>)
   \<and> key_taken (chargeback_id (sample_chargeback ''cb_001'' ''txn_0001''))
         (map chargeback_id (chargebacks disputed_store))
   \<and> (\<exists>msg. insert_chargeback (pragma_foreign_keys_on connect)
         (sample_chargeback ''cb_001'' ''txn_0001'') disputed_store = Inl (IntegrityError msg))"
proof -
  have a: "cb_transaction_id (sample_chargeback ''cb_002'' ''txn_0001'')
             \<in> set (map cb_transaction_id (chargebacks disputed_store))"
    and b: "cb_transaction_id (sample_chargeback ''cb_001'' ''txn_0001'')
             \<in> set (map cb_transaction_id (chargebacks disputed_store))"
    by (simp_all add: disputed_store_def sample_chargeback_def)
  have k2: "\<not> key_taken (chargeback_id (sample_chargeback ''cb_002'' ''txn_0001''))
              (map chargeback_id (chargebacks disputed_store))"
    and k1: "key_taken (chargeback_id (sample_chargeback ''cb_001'' ''txn_0001''))
              (map chargeback_id (chargebacks disputed_store))"
    and p: "has_parent ''txn_0001'' (map transaction_id (transactions disputed_store))"
    by (simp_all add: key_taken_def has_parent_def disputed_store_def sample_chargeback_def
        sample_transaction_def)
  have t: "cb_transaction_id (sample_chargeback ''cb_002'' ''txn_0001'') = ''txn_0001''"
    by (simp add: sample_chargeback_def)
  from second_chargeback_needs_only_new_id [OF a, of "pragma_foreign_keys_on connect"]
       second_chargeback_needs_only_new_id [OF b, of "pragma_foreign_keys_on connect"]
       a k1 k2 p t
  show ?thesis by simp
qed


section \<open>Properties of the reporting layer\<close>

lemma bind_result_Inr [simp]: "bind_result (Inr x) f = f x"
  by (simp add: bind_result_def)

lemma bind_result_Inl [simp]: "bind_result (Inl e) f = Inl e"
  by (simp add: bind_result_def)

lemma bind_result_eq_Inr:
  "bind_result m f = Inr y \<longleftrightarrow> (\<exists>x. m = Inr x \<and> f x = Inr y)"
  by (cases m) simp_all

text \<open>The queries themselves tolerate empty tables: counts are zero, the other aggregates
  are \<^verbatim>\<open>NULL\<close>, the grouped queries have no row.\<close>

lemma aggregates_of_empty_store:
  "table_counts empty_store =
     [(''customers'', 0), (''merchants'', 0), (''transactions'', 0), (''chargebacks'', 0),
      (''case_events'', 0)]
   \<and> transactions_summary empty_store = (0, 0, 0, None, None, None, None)
   \<and> chargebacks_summary empty_store = (0, 0, 0, 0, 0, None)
   \<and> event_type_counts empty_store = [] \<and> risk_analysis empty_store = []"
  by (simp add: transactions_summary_def chargebacks_summary_def sql_sum_def sql_avg_def
      sql_min_def sql_max_def empty_store_def table_counts_def count_distinct_def
      count_status_def event_type_counts_def risk_analysis_def non_null_def)

lemma view_database_without_transactions:
  "transactions s = [] \<Longrightarrow>
   view_database (Some (Tables s)) =
     Inl (TypeError ''unsupported format string passed to NoneType.__format__'')"
  by (simp add: view_database_def transactions_summary_def sql_sum_def format_money_def)

text \<open>
  C4. Claimed: on an initialized store whose five tables are empty, every aggregate of
  the reporting layer completes and reports zero or empty results. The store
  \<^verbatim>\<open>init_database\<close> creates is such a store, and on it \<^verbatim>\<open>view_database\<close> raises \<^verbatim>\<open>TypeError\<close>:
  the sum of \<^verbatim>\<open>amount\<close> over no rows is \<^verbatim>\<open>NULL\<close>, and the line that prints the total
  amount formats \<^verbatim>\<open>None\<close> as a number. The table counts are printed before that; the
  chargeback summary, the event types and the risk analysis are never reached.
\<close>

theorem view_database_fails_on_empty_store:
  "init_database None = Inr (Some (Tables empty_store))
   \<and> view_database (Some (Tables empty_store)) =
       Inl (TypeError ''unsupported format string passed to NoneType.__format__'')"
  by (simp add: init_database_def open_database_def create_tables_def view_database_def
      transactions_summary_def sql_sum_def format_money_def empty_store_def)

section \<open>Properties of the generator\<close>

subsection \<open>What each loop writes when it completes\<close>

lemma insert_merchant_Inr:
  "insert_merchant c r s = Inr s' \<Longrightarrow> s' = s\<lparr>merchants := merchants s @ [r]\<rparr>"
  by (auto simp: insert_merchant_def split: if_splits)

lemma insert_customer_Inr:
  "insert_customer c r s = Inr s' \<Longrightarrow> s' = s\<lparr>customers := customers s @ [r]\<rparr>"
  by (auto simp: insert_customer_def split: if_splits)

lemma insert_transaction_Inr:
  "insert_transaction c r s = Inr s' \<Longrightarrow>
     s' = s\<lparr>transactions := transactions s @ [r]\<rparr> \<and>
     \<not> key_taken (transaction_id r) (map transaction_id (transactions s))"
  by (auto simp: insert_transaction_def split: if_splits)

lemma insert_chargeback_Inr:
  "insert_chargeback c r s = Inr s' \<Longrightarrow> s' = s\<lparr>chargebacks := chargebacks s @ [r]\<rparr>"
  by (auto simp: insert_chargeback_def split: if_splits)

lemma insert_case_event_Inr:
  "insert_case_event c cb_id ty d b s = Inr s' \<Longrightarrow>
     s' = s\<lparr>case_events := case_events s @
                [\<lparr>event_id = next_event_id s, ev_chargeback_id = cb_id, event_type = ty,
                  event_date = d, event_body = b\<rparr>],
              case_events_seq := next_event_id s\<rparr>"
  by (auto simp: insert_case_event_def split: if_splits)

lemma create_merchants_shape:
  "create_merchants c ms g s = Inr (s', g') \<Longrightarrow>
     \<exists>rows. s' = s\<lparr>merchants := merchants s @ rows\<rparr> \<and> length rows = length ms"
proof (induction ms arbitrary: g s)
  case Nil
  then show ?case by simp
next
  case (Cons m ms)
  obtain mid nm bank rate where m: "m = (mid, nm, bank, rate)" by (cases m) auto
  from Cons.prems obtain s1 where
    s1: "insert_merchant c \<lparr>merchant_id = Some mid, merchant_name = nm, acquiring_bank = Some bank,
              win_rate = Some rate, merchant_created_at = Some (random_date 730 1 (g 0))\<rparr> s = Inr s1"
    and rest: "create_merchants c ms (advance 1 g) s1 = Inr (s', g')"
    by (auto simp: m split: sum.splits)
  from Cons.IH [OF rest] obtain rows where
    "s' = s1\<lparr>merchants := merchants s1 @ rows\<rparr>" "length rows = length ms" by blast
  with insert_merchant_Inr [OF s1] show ?case
    by (intro exI [of _ "\<lparr>merchant_id = Some mid, merchant_name = nm, acquiring_bank = Some bank,
              win_rate = Some rate, merchant_created_at = Some (random_date 730 1 (g 0))\<rparr> # rows"]) simp
qed

lemma create_customers_shape:
  "create_customers c cs g s = Inr (s', g') \<Longrightarrow>
     \<exists>rows. s' = s\<lparr>customers := customers s @ rows\<rparr> \<and>
            map customer_id rows = map (\<lambda>x. Some (fst x)) cs"
proof (induction cs arbitrary: g s)
  case Nil
  then show ?case by simp
next
  case (Cons x cs)
  obtain cid nm mail reg where x: "x = (cid, nm, mail, reg)" by (cases x) auto
  from Cons.prems obtain s1 where
    s1: "insert_customer c \<lparr>customer_id = Some cid, name = nm, email = Some mail, region = Some reg,
              created_at = Some (random_date 730 1 (g 0)), total_chargebacks = Some 0,
              total_refunds = Some 0\<rparr> s = Inr s1"
    and rest: "create_customers c cs (advance 1 g) s1 = Inr (s', g')"
    by (auto simp: x split: sum.splits)
  from Cons.IH [OF rest] obtain rows where
    "s' = s1\<lparr>customers := customers s1 @ rows\<rparr>" "map customer_id rows = map (\<lambda>x. Some (fst x)) cs" by blast
  with insert_customer_Inr [OF s1] show ?case
    by (intro exI [of _ "\<lparr>customer_id = Some cid, name = nm, email = Some mail, region = Some reg,
              created_at = Some (random_date 730 1 (g 0)), total_chargebacks = Some 0,
              total_refunds = Some 0\<rparr> # rows"]) (simp add: x)
qed

lemma distinct_after_insert:
  assumes "\<not> key_taken (Some k) ks" "distinct ks"
  shows "distinct (ks @ [Some k])"
  using assms by (simp add: key_taken_def)

lemma customer_transactions_shape:
  "customer_transactions c cid n k g s = Inr (s', k', g') \<Longrightarrow>
     (\<exists>rows. s' = s\<lparr>transactions := transactions s @ rows\<rparr>) \<and>
     (distinct (map transaction_id (transactions s)) \<longrightarrow>
      distinct (map transaction_id (transactions s')))"
proof (induction n arbitrary: k g s)
  case 0
  then show ?case by (auto intro: exI [of _ "[]"])
next
  case (Suc n)
  let ?r = "normal_transaction (generate_id ''txn'' k) cid g"
  from Suc.prems obtain s1 where
    s1: "insert_transaction c ?r s = Inr s1"
    and rest: "customer_transactions c cid n (k + 1) (advance 14 g) s1 = Inr (s', k', g')"
    by (auto split: sum.splits)
  have id: "transaction_id ?r = Some (generate_id ''txn'' k)"
    by (simp add: normal_transaction_def Let_def)
  from insert_transaction_Inr [OF s1] have
    eq: "s1 = s\<lparr>transactions := transactions s @ [?r]\<rparr>"
    and fresh: "\<not> key_taken (transaction_id ?r) (map transaction_id (transactions s))" by auto
  from Suc.IH [OF rest] obtain rows where
    rows: "s' = s1\<lparr>transactions := transactions s1 @ rows\<rparr>"
    and d: "distinct (map transaction_id (transactions s1)) \<longrightarrow>
            distinct (map transaction_id (transactions s'))" by blast
  have "s' = s\<lparr>transactions := transactions s @ (?r # rows)\<rparr>"
    using rows eq by simp
  moreover have "distinct (map transaction_id (transactions s)) \<longrightarrow>
      distinct (map transaction_id (transactions s'))"
    using d fresh eq id by (simp add: key_taken_def)
  ultimately show ?case by blast
qed

lemma normal_transactions_shape:
  "normal_transactions c cs k g s = Inr (s', k', g') \<Longrightarrow>
     (\<exists>rows. s' = s\<lparr>transactions := transactions s @ rows\<rparr>) \<and>
     (distinct (map transaction_id (transactions s)) \<longrightarrow>
      distinct (map transaction_id (transactions s')))"
proof (induction cs arbitrary: k g s)
  case Nil
  then show ?case by (auto intro: exI [of _ "[]"])
next
  case (Cons x cs)
  obtain cid nm mail reg where x: "x = (cid, nm, mail, reg)" by (cases x) auto
  from Cons.prems obtain s1 k1 g1 where
    s1: "customer_transactions c cid (randint 5 10 (g 0)) k (advance 1 g) s = Inr (s1, k1, g1)"
    and rest: "normal_transactions c cs k1 g1 s1 = Inr (s', k', g')"
    by (auto simp: x split: sum.splits)
  from customer_transactions_shape [OF s1] obtain rows1 where
    r1: "s1 = s\<lparr>transactions := transactions s @ rows1\<rparr>"
    and d1: "distinct (map transaction_id (transactions s)) \<longrightarrow>
             distinct (map transaction_id (transactions s1))" by blast
  from Cons.IH [OF rest] obtain rows2 where
    r2: "s' = s1\<lparr>transactions := transactions s1 @ rows2\<rparr>"
    and d2: "distinct (map transaction_id (transactions s1)) \<longrightarrow>
             distinct (map transaction_id (transactions s'))" by blast
  have "s' = s\<lparr>transactions := transactions s @ (rows1 @ rows2)\<rparr>"
    using r1 r2 by simp
  with d1 d2 show ?case by blast
qed

lemma create_cases_shape:
  "create_cases c bs cases k g s = Inr (s', cases', k', g') \<Longrightarrow>
     (\<exists>plan. s' = s\<lparr>transactions := transactions s @ map fst plan\<rparr> \<and>
             cases' = cases @ map snd plan \<and> list_all2 written_for bs plan) \<and>
     (distinct (map transaction_id (transactions s)) \<longrightarrow>
      distinct (map transaction_id (transactions s')))"
proof (induction bs arbitrary: cases k g s)
  case Nil
  then show ?case by simp
next
  case (Cons b bs)
  let ?t = "block_transaction b (generate_id ''txn'' k) g"
  let ?cb = "block_case b (generate_id ''txn'' k) g"
  from Cons.prems obtain s1 where
    s1: "insert_transaction c ?t s = Inr s1"
    and rest: "create_cases c bs (cases @ [?cb]) (k + 1) (advance (block_draws b) g) s1
                 = Inr (s', cases', k', g')"
    by (auto split: sum.splits)
  have id: "transaction_id ?t = Some (generate_id ''txn'' k)"
    by (simp add: block_transaction_def)
  from insert_transaction_Inr [OF s1] have
    eq: "s1 = s\<lparr>transactions := transactions s @ [?t]\<rparr>"
    and fresh: "\<not> key_taken (transaction_id ?t) (map transaction_id (transactions s))" by auto
  from Cons.IH [OF rest] obtain plan where
    p1: "s' = s1\<lparr>transactions := transactions s1 @ map fst plan\<rparr>"
    and p2: "cases' = (cases @ [?cb]) @ map snd plan"
    and p3: "list_all2 written_for bs plan"
    and d: "distinct (map transaction_id (transactions s1)) \<longrightarrow>
            distinct (map transaction_id (transactions s'))" by blast
  have w: "written_for b (?t, ?cb)"
    unfolding written_for_def by blast
  have "s' = s\<lparr>transactions := transactions s @ map fst ((?t, ?cb) # plan)\<rparr>"
    using p1 eq by simp
  moreover have "cases' = cases @ map snd ((?t, ?cb) # plan)"
    using p2 by simp
  moreover have "list_all2 written_for (b # bs) ((?t, ?cb) # plan)"
    using p3 w by simp
  moreover have "distinct (map transaction_id (transactions s)) \<longrightarrow>
      distinct (map transaction_id (transactions s'))"
    using d fresh eq id by (simp add: key_taken_def)
  ultimately show ?case by blast
qed

lemma insert_chargebacks_shape:
  "insert_chargebacks c cases g s = Inr (s', g') \<Longrightarrow>
     \<exists>rows. s' = s\<lparr>chargebacks := chargebacks s @ rows\<rparr> \<and> list_all2 row_of_case cases rows"
proof (induction cases arbitrary: g s)
  case Nil
  then show ?case by simp
next
  case (Cons cb cbs)
  from Cons.prems obtain s1 where
    s1: "insert_chargeback c (chargeback_row cb g) s = Inr s1"
    and rest: "insert_chargebacks c cbs (advance 1 g) s1 = Inr (s', g')"
    by (auto split: sum.splits)
  from Cons.IH [OF rest] obtain rows where
    "s' = s1\<lparr>chargebacks := chargebacks s1 @ rows\<rparr>" "list_all2 row_of_case cbs rows" by blast
  moreover have "row_of_case cb (chargeback_row cb g)"
    unfolding row_of_case_def by blast
  ultimately show ?case
    using insert_chargeback_Inr [OF s1]
    by (intro exI [of _ "chargeback_row cb g # rows"]) simp
qed

lemma insert_events_shape:
  "insert_events c cb_id es g s = Inr (s', g') \<Longrightarrow>
     \<exists>rows n. s' = s\<lparr>case_events := case_events s @ rows, case_events_seq := n\<rparr> \<and>
        map (\<lambda>e. (ev_chargeback_id e, event_type e, event_body e)) rows =
        map (\<lambda>(ty, body). (cb_id, ty, body)) es"
proof (induction es arbitrary: g s)
  case Nil
  then show ?case
    by (intro exI [of _ "[]"] exI [of _ "case_events_seq s"]) simp
next
  case (Cons x es)
  obtain ty body where x: "x = (ty, body)" by (cases x) auto
  from Cons.prems obtain s1 where
    s1: "insert_case_event c cb_id ty (Some (random_date 10 1 (g 0))) body s = Inr s1"
    and rest: "insert_events c cb_id es (advance 1 g) s1 = Inr (s', g')"
    by (auto simp: x split: sum.splits)
  define e where "e = \<lparr>event_id = next_event_id s, ev_chargeback_id = cb_id, event_type = ty,
                  event_date = Some (random_date 10 1 (g 0)), event_body = body\<rparr>"
  from insert_case_event_Inr [OF s1] have
    e: "s1 = s\<lparr>case_events := case_events s @ [e], case_events_seq := event_id e\<rparr>"
       "ev_chargeback_id e = cb_id" "event_type e = ty" "event_body e = body"
    by (simp_all add: e_def)
  from Cons.IH [OF rest] obtain rows n where
    r: "s' = s1\<lparr>case_events := case_events s1 @ rows, case_events_seq := n\<rparr>"
       "map (\<lambda>e. (ev_chargeback_id e, event_type e, event_body e)) rows =
        map (\<lambda>(ty, body). (cb_id, ty, body)) es" by blast
  show ?case
    using e r by (intro exI [of _ "e # rows"] exI [of _ n]) (simp add: x)
qed

lemma create_case_events_shape:
  "create_case_events c evidence cases g s = Inr (s', g') \<Longrightarrow>
     \<exists>groups n. s' = s\<lparr>case_events := case_events s @ concat groups, case_events_seq := n\<rparr> \<and>
        list_all2 (events_of_case evidence) cases groups"
proof (induction cases arbitrary: g s)
  case Nil
  then show ?case
    by (intro exI [of _ "[]"] exI [of _ "case_events_seq s"]) simp
next
  case (Cons cb cbs)
  obtain events g1 where ev: "events_for evidence cb g = (events, g1)"
    by (cases "events_for evidence cb g") auto
  from Cons.prems ev obtain s1 g2 where
    s1: "insert_events c (case_chargeback_id cb) events g1 s = Inr (s1, g2)"
    and rest: "create_case_events c evidence cbs g2 s1 = Inr (s', g')"
    by (auto split: sum.splits)
  from insert_events_shape [OF s1] obtain rows n1 where
    r1: "s1 = s\<lparr>case_events := case_events s @ rows, case_events_seq := n1\<rparr>"
        "map (\<lambda>e. (ev_chargeback_id e, event_type e, event_body e)) rows =
         map (\<lambda>(ty, body). (case_chargeback_id cb, ty, body)) events" by blast
  from Cons.IH [OF rest] obtain groups n where
    r2: "s' = s1\<lparr>case_events := case_events s1 @ concat groups, case_events_seq := n\<rparr>"
        "list_all2 (events_of_case evidence) cbs groups" by blast
  have "events_of_case evidence cb rows"
    unfolding events_of_case_def using r1(2) ev by (intro exI [of _ g]) simp
  then show ?case
    using r1 r2 by (intro exI [of _ "rows # groups"] exI [of _ n]) simp
qed

lemma count_chargebacks_joined_frame:
  "chargebacks s' = chargebacks s \<Longrightarrow> transactions s' = transactions s \<Longrightarrow>
   count_chargebacks_joined s' cid = count_chargebacks_joined s cid"
  by (simp add: count_chargebacks_joined_def)

lemma update_customer_statistics_result:
  "update_customer_statistics cs s =
     s\<lparr>customers :=
         map (\<lambda>r. case customer_id r of
                     None \<Rightarrow> r
                   | Some cid \<Rightarrow>
                       if cid \<in> fst ` set cs
                       then r\<lparr>total_chargebacks := Some (int (count_chargebacks_joined s cid))\<rparr>
                       else r)
           (customers s)\<rparr>"
proof (induction cs arbitrary: s)
  case Nil
  have "map (\<lambda>r. case customer_id r of
                     None \<Rightarrow> r
                   | Some cid \<Rightarrow>
                       if cid \<in> fst ` set ([] :: (string \<times> string \<times> string \<times> string) list)
                       then r\<lparr>total_chargebacks := Some (int (count_chargebacks_joined s cid))\<rparr>
                       else r) (customers s) = customers s"
    by (rule map_idI) (simp split: option.splits)
  then show ?case by simp
next
  case (Cons x cs)
  obtain cid nm mail reg where x: "x = (cid, nm, mail, reg)" by (cases x) auto
  let ?s1 = "set_total_chargebacks cid (count_chargebacks_joined s cid) s"
  have frame: "count_chargebacks_joined ?s1 = count_chargebacks_joined s"
    by (rule ext) (simp add: count_chargebacks_joined_def set_total_chargebacks_def)
  show ?case
    unfolding x update_customer_statistics.simps Cons.IH frame
    by (auto simp: set_total_chargebacks_def split: option.splits)
qed

subsection \<open>The steps of a completed run\<close>

lemma clear_existing_data_connect:
  "clear_existing_data connect s =
     Inr (s\<lparr>case_events := [], chargebacks := [], transactions := [], customers := [],
           merchants := []\<rparr>)"
  by (simp add: clear_existing_data_def delete_case_events_def delete_chargebacks_def
      delete_transactions_def delete_customers_def delete_merchants_def connect_def)

lemma seeded_run:
  assumes "seed_database g (Some (Tables s)) = Seeded s' cases"
  shows "\<exists>s0 s1 g1 s2 g2 s3 k g3 s4 k' g4 s5 g5 s6 g6.
     s0 = s\<lparr>case_events := [], chargebacks := [], transactions := [], customers := [],
            merchants := []\<rparr> \<and>
     create_merchants connect merchants_data g s0 = Inr (s1, g1) \<and>
     create_customers connect customers_data g1 s1 = Inr (s2, g2) \<and>
     normal_transactions connect customers_data 1 g2 s2 = Inr (s3, k, g3) \<and>
     create_cases connect case_blocks [] k g3 s3 = Inr (s4, cases, k', g4) \<and>
     insert_chargebacks connect cases g4 s4 = Inr (s5, g5) \<and>
     create_case_events connect case_evidence cases (advance case_evidence_draws g5) s5
       = Inr (s6, g6) \<and>
     s' = update_customer_statistics customers_data s6"
  using assms
  by (auto simp: seed_database_def write_rows_def clear_existing_data_connect
      bind_result_eq_Inr split: sum.splits prod.splits)

lemma seeded_structure:
  assumes "seed_database g (Some (Tables s)) = Seeded s' cases"
  shows "\<exists>normal plan groups.
     length (merchants s') = length merchants_data \<and>
     map customer_id (customers s') = map (\<lambda>x. Some (fst x)) customers_data \<and>
     transactions s' = normal @ map fst plan \<and> cases = map snd plan \<and>
     list_all2 written_for case_blocks plan \<and>
     distinct (map transaction_id (transactions s')) \<and>
     list_all2 row_of_case cases (chargebacks s') \<and>
     case_events s' = concat groups \<and>
     list_all2 (events_of_case case_evidence) cases groups \<and>
     (\<forall>r\<in>set (customers s'). \<forall>cid. customer_id r = Some cid \<longrightarrow>
        total_chargebacks r = Some (int (count_chargebacks_joined s' cid)))"
proof -
  from seeded_run [OF assms] obtain s0 s1 g1 s2 g2 s3 k g3 s4 k' g4 s5 g5 s6 g6 where
    s0: "s0 = s\<lparr>case_events := [], chargebacks := [], transactions := [], customers := [],
            merchants := []\<rparr>"
    and r1: "create_merchants connect merchants_data g s0 = Inr (s1, g1)"
    and r2: "create_customers connect customers_data g1 s1 = Inr (s2, g2)"
    and r3: "normal_transactions connect customers_data 1 g2 s2 = Inr (s3, k, g3)"
    and r4: "create_cases connect case_blocks [] k g3 s3 = Inr (s4, cases, k', g4)"
    and r5: "insert_chargebacks connect cases g4 s4 = Inr (s5, g5)"
    and r6: "create_case_events connect case_evidence cases (advance case_evidence_draws g5) s5
       = Inr (s6, g6)"
    and r7: "s' = update_customer_statistics customers_data s6"
    by blast
  from create_merchants_shape [OF r1] obtain ms where
    ms: "s1 = s0\<lparr>merchants := merchants s0 @ ms\<rparr>" "length ms = length merchants_data"
    by blast
  from create_customers_shape [OF r2] obtain cs where
    cs: "s2 = s1\<lparr>customers := customers s1 @ cs\<rparr>"
        "map customer_id cs = map (\<lambda>x. Some (fst x)) customers_data"
    by blast
  from normal_transactions_shape [OF r3] obtain normal where
    n: "s3 = s2\<lparr>transactions := transactions s2 @ normal\<rparr>"
    and nd: "distinct (map transaction_id (transactions s2)) \<longrightarrow>
             distinct (map transaction_id (transactions s3))"
    by blast
  from create_cases_shape [OF r4] obtain plan where
    p: "s4 = s3\<lparr>transactions := transactions s3 @ map fst plan\<rparr>"
       "cases = [] @ map snd plan" "list_all2 written_for case_blocks plan"
    and pd: "distinct (map transaction_id (transactions s3)) \<longrightarrow>
             distinct (map transaction_id (transactions s4))"
    by blast
  from insert_chargebacks_shape [OF r5] obtain rows where
    rows: "s5 = s4\<lparr>chargebacks := chargebacks s4 @ rows\<rparr>" "list_all2 row_of_case cases rows"
    by blast
  from create_case_events_shape [OF r6] obtain groups n6 where
    ev: "s6 = s5\<lparr>case_events := case_events s5 @ concat groups, case_events_seq := n6\<rparr>"
        "list_all2 (events_of_case case_evidence) cases groups"
    by blast
  have t2: "transactions s2 = []" "customers s1 = []" "merchants s0 = []"
      "chargebacks s4 = []" "case_events s5 = []"
    by (simp_all add: s0 ms cs n p rows)
  have tx: "transactions s6 = normal @ map fst plan"
    by (simp add: s0 ms cs n p rows ev)
  have cb: "chargebacks s6 = rows"
    by (simp add: s0 ms cs n p rows ev)
  have ce: "case_events s6 = concat groups"
    by (simp add: s0 ms cs n p rows ev)
  have cu: "customers s6 = cs"
    by (simp add: s0 ms cs n p rows ev)
  have me: "merchants s6 = ms"
    by (simp add: s0 ms cs n p rows ev)
  have d: "distinct (map transaction_id (transactions s6))"
    using nd pd t2(1) by (simp add: rows ev)
  have frame: "transactions s' = transactions s6" "chargebacks s' = chargebacks s6"
      "case_events s' = case_events s6" "merchants s' = merchants s6"
    by (simp_all add: r7 update_customer_statistics_result)
  let ?f = "\<lambda>r. case customer_id r of
                     None \<Rightarrow> r
                   | Some cid \<Rightarrow>
                       if cid \<in> fst ` set customers_data
                       then r\<lparr>total_chargebacks := Some (int (count_chargebacks_joined s6 cid))\<rparr>
                       else r"
  have cu': "customers s' = map ?f cs"
    by (simp add: r7 update_customer_statistics_result cu)
  have keep: "customer_id (?f r) = customer_id r" for r
    by (simp split: option.splits)
  have ids: "map customer_id (customers s') = map (\<lambda>x. Some (fst x)) customers_data"
    unfolding cu' map_map comp_def keep by (rule cs(2))
  have cnt: "count_chargebacks_joined s' = count_chargebacks_joined s6"
    by (rule ext) (rule count_chargebacks_joined_frame [OF frame(2) frame(1)])
  have totals: "total_chargebacks r' = Some (int (count_chargebacks_joined s' cid))"
    if "r' \<in> set (customers s')" "customer_id r' = Some cid" for r' cid
  proof -
    from that(1) obtain r where r: "r \<in> set cs" "r' = ?f r"
      unfolding cu' by auto
    have "customer_id r' = customer_id r"
      unfolding r(2) by (rule keep)
    with that(2) have rid: "customer_id r = Some cid" by simp
    from r(1) have "customer_id r \<in> set (map customer_id cs)" by simp
    then have "cid \<in> fst ` set customers_data"
      unfolding cs(2) rid by auto
    then show ?thesis
      by (simp add: r(2) rid cnt)
  qed
  show ?thesis
    using ms(2) ids tx p(2,3) d rows(2) ev(2) totals
    by (intro exI [of _ normal] exI [of _ plan] exI [of _ groups])
       (simp add: frame cb ce me)
qed

subsection \<open>Facts read off the table of the twenty-three blocks\<close>

lemma case_blocks_scores:
  "list_all (\<lambda>b. (b_fraud_type b = ''true_fraud'' \<longrightarrow> 88.2 \<le> b_fraud_score b) \<and>
                 (b_fraud_type b = ''not_guilty'' \<longrightarrow> b_fraud_score b \<le> 15))
     case_blocks"
  by (simp add: case_blocks_def)

lemma case_blocks_lifecycle:
  "list_all (\<lambda>b. (b_closed_at b = None \<longleftrightarrow> b_outcome b = None) \<and>
                 (b_outcome b \<noteq> None \<longleftrightarrow> b_status b = ''won'' \<or> b_status b = ''lost''))
     case_blocks"
  by (simp add: case_blocks_def)

lemma case_blocks_ids:
  "map b_chargeback_id case_blocks =
     [''cb_001'', ''cb_002'', ''cb_003'', ''cb_004'', ''cb_005'', ''cb_006'', ''cb_007'',
      ''cb_008'', ''cb_009'', ''cb_010'', ''cb_011'', ''cb_012'', ''cb_013'', ''cb_014'',
      ''cb_015'', ''cb_016'', ''cb_017'', ''cb_018'', ''cb_019'', ''cb_020'', ''cb_021'',
      ''cb_022'', ''cb_023'']"
  by (simp add: case_blocks_def)

lemma case_blocks_merchant_error:
  "list_all (\<lambda>b. b_fraud_type b = ''merchant_error'' \<longrightarrow>
                 (b_chargeback_id b \<in> {''cb_021'', ''cb_022'', ''cb_023''} \<and>
                  b_status b = ''lost'' \<and> b_outcome b = Some ''lost'') \<or>
                 (b_chargeback_id b \<in> {''cb_007'', ''cb_008''} \<and>
                  b_status b = ''open'' \<and> b_outcome b = None))
     case_blocks"
  by (simp add: case_blocks_def)

lemma case_blocks_fraud_types:
  "list_all (\<lambda>b. b_fraud_type b \<in> {''true_fraud'', ''friendly_fraud'', ''merchant_error'',
                                   ''not_guilty''}) case_blocks"
  by (simp add: case_blocks_def)


subsection \<open>Cases, transactions and chargebacks of a completed run\<close>

lemma list_all2_right_in_set:
  "list_all2 P xs ys \<Longrightarrow> y \<in> set ys \<Longrightarrow> \<exists>x\<in>set xs. P x y"
  by (induction rule: list_all2_induct) auto

lemma list_all2_left_in_set:
  "list_all2 P xs ys \<Longrightarrow> x \<in> set xs \<Longrightarrow> \<exists>y\<in>set ys. P x y"
  by (induction rule: list_all2_induct) auto

lemma seeded_case:
  assumes "seed_database g (Some (Tables s)) = Seeded s' cases" and "c \<in> set cases"
  shows "\<exists>b\<in>set case_blocks. \<exists>k h.
           c = block_case b (generate_id ''txn'' k) h \<and>
           block_transaction b (generate_id ''txn'' k) h \<in> set (transactions s')"
proof -
  from seeded_structure [OF assms(1)] obtain normal plan where
    tx: "transactions s' = normal @ map fst plan" and cs: "cases = map snd plan"
    and w: "list_all2 written_for case_blocks plan"
    by blast
  from assms(2) cs obtain p where p: "p \<in> set plan" "c = snd p" by auto
  from list_all2_right_in_set [OF w p(1)] obtain b where
    b: "b \<in> set case_blocks" "written_for b p" by blast
  from b(2) obtain k h where
    kh: "p = (block_transaction b (generate_id ''txn'' k) h, block_case b (generate_id ''txn'' k) h)"
    unfolding written_for_def by blast
  have "fst p \<in> set (transactions s')"
    unfolding tx using p(1) by simp
  with kh p(2) b(1) show ?thesis by auto
qed

lemma seeded_same_transaction:
  assumes "seed_database g (Some (Tables s)) = Seeded s' cases"
    and "t \<in> set (transactions s')" "u \<in> set (transactions s')"
    and "transaction_id t = transaction_id u"
  shows "t = u"
proof -
  from seeded_structure [OF assms(1)] have "distinct (map transaction_id (transactions s'))"
    by blast
  then have "inj_on transaction_id (set (transactions s'))"
    by (simp add: distinct_map)
  from inj_onD [OF this assms(4) assms(2) assms(3)] show ?thesis .
qed

lemma seeded_chargeback:
  assumes "seed_database g (Some (Tables s)) = Seeded s' cases" and "r \<in> set (chargebacks s')"
  shows "\<exists>c\<in>set cases. \<exists>h. r = chargeback_row c h"
proof -
  from seeded_structure [OF assms(1)] have "list_all2 row_of_case cases (chargebacks s')"
    by blast
  from list_all2_right_in_set [OF this assms(2)] show ?thesis
    unfolding row_of_case_def .
qed

lemma seeded_case_has_row:
  assumes "seed_database g (Some (Tables s)) = Seeded s' cases" and "c \<in> set cases"
  shows "\<exists>h. chargeback_row c h \<in> set (chargebacks s')"
proof -
  from seeded_structure [OF assms(1)] have "list_all2 row_of_case cases (chargebacks s')"
    by blast
  from list_all2_left_in_set [OF this assms(2)] show ?thesis
    unfolding row_of_case_def by blast
qed

lemma block_case_fields:
  "case_fraud_type (block_case b i h) = b_fraud_type b"
  "case_status (block_case b i h) = b_status b"
  "case_outcome (block_case b i h) = b_outcome b"
  "case_chargeback_id (block_case b i h) = b_chargeback_id b"
  "case_transaction_id (block_case b i h) = i"
  "case_chargeback_amount (block_case b i h) = b_chargeback_amount b"
  "case_closed_at (block_case b i h) = None \<longleftrightarrow> b_closed_at b = None"
  by (simp_all add: block_case_def split: option.splits)

lemma block_transaction_fields:
  "transaction_id (block_transaction b i h) = Some i"
  "fraud_score (block_transaction b i h) = Some (b_fraud_score b)"
  "tx_customer_id (block_transaction b i h) = b_customer_id b"
  by (simp_all add: block_transaction_def)

lemma chargeback_row_fields:
  "chargeback_id (chargeback_row c h) = Some (case_chargeback_id c)"
  "cb_transaction_id (chargeback_row c h) = case_transaction_id c"
  "status (chargeback_row c h) = Some (case_status c)"
  "outcome (chargeback_row c h) = case_outcome c"
  "closed_at (chargeback_row c h) = case_closed_at c"
  by (simp_all add: chargeback_row_def)

subsection \<open>Identifiers do not repeat\<close>

lemma digits_value_snoc: "digits_value (ds @ [ch]) = 10 * digits_value ds + (of_char ch - 48)"
  by (simp add: digits_value_def)

lemma of_char_digit_char: "d < 10 \<Longrightarrow> of_char (digit_char d) - 48 = d"
  by (simp add: digit_char_def)

lemma digits_value_str_nat: "digits_value (str_nat n) = n"
proof (induction n rule: str_nat.induct)
  case (1 n)
  show ?case
  proof (cases "n < 10")
    case True
    then show ?thesis
      by (subst str_nat.simps) (simp add: digits_value_def of_char_digit_char)
  next
    case False
    then have "digits_value (str_nat (n div 10)) = n div 10" using 1 by simp
    with False show ?thesis
      by (subst str_nat.simps) (simp add: digits_value_snoc of_char_digit_char)
  qed
qed

lemma digits_value_zeros:
  "foldl (\<lambda>a ch. 10 * a + (of_char ch - 48)) 0 (replicate k CHR ''0'') = (0::nat)"
  by (induction k) simp_all

lemma digits_value_zero_pad: "digits_value (zero_pad w ds) = digits_value ds"
  by (simp add: zero_pad_def digits_value_def digits_value_zeros)

lemma generate_id_inject: "generate_id p n = generate_id p m \<Longrightarrow> n = m"
proof -
  assume "generate_id p n = generate_id p m"
  then have "zero_pad 4 (str_nat n) = zero_pad 4 (str_nat m)"
    by (simp add: generate_id_def)
  then have "digits_value (zero_pad 4 (str_nat n)) = digits_value (zero_pad 4 (str_nat m))"
    by simp
  then show "n = m"
    by (simp add: digits_value_zero_pad digits_value_str_nat)
qed

subsection \<open>Each loop completes\<close>

lemma create_merchants_ok:
  "merchants s = [] \<Longrightarrow> \<exists>r. create_merchants c merchants_data g s = Inr r"
  by (simp add: merchants_data_def insert_merchant_def key_taken_def)

lemma create_customers_ok:
  "customers s = [] \<Longrightarrow> \<exists>r. create_customers c customers_data g s = Inr r"
  by (simp add: customers_data_def insert_customer_def key_taken_def)

lemma fresh_transaction_id:
  assumes "set ks \<subseteq> (\<lambda>i. Some (generate_id p i)) ` {..<k}"
  shows "\<not> key_taken (Some (generate_id p k)) ks"
proof
  assume "key_taken (Some (generate_id p k)) ks"
  then have "Some (generate_id p k) \<in> set ks" by (simp add: key_taken_def)
  with assms obtain i where "i < k" "generate_id p k = generate_id p i" by auto
  then show False using generate_id_inject by blast
qed

lemma insert_transaction_fresh:
  assumes "\<not> foreign_keys c" and "transaction_id r = Some (generate_id ''txn'' k)"
    and "set (map transaction_id (transactions s)) \<subseteq> (\<lambda>i. Some (generate_id ''txn'' i)) ` {..<k}"
  shows "insert_transaction c r s = Inr (s\<lparr>transactions := transactions s @ [r]\<rparr>)"
    and "set (map transaction_id (transactions (s\<lparr>transactions := transactions s @ [r]\<rparr>)))
           \<subseteq> (\<lambda>i. Some (generate_id ''txn'' i)) ` {..<k + 1}"
proof -
  from fresh_transaction_id [OF assms(3)] assms(1,2)
  show "insert_transaction c r s = Inr (s\<lparr>transactions := transactions s @ [r]\<rparr>)"
    by (simp add: insert_transaction_def)
  have "{..<k} \<subseteq> {..<k + 1}" by auto
  then have "(\<lambda>i. Some (generate_id ''txn'' i)) ` {..<k} \<subseteq> (\<lambda>i. Some (generate_id ''txn'' i)) ` {..<k + 1}"
    by (rule image_mono)
  with assms(3) have "set (map transaction_id (transactions s))
      \<subseteq> (\<lambda>i. Some (generate_id ''txn'' i)) ` {..<k + 1}" by (rule subset_trans)
  moreover have "transaction_id r \<in> (\<lambda>i. Some (generate_id ''txn'' i)) ` {..<k + 1}"
    unfolding assms(2) by (rule imageI) simp
  ultimately show "set (map transaction_id (transactions (s\<lparr>transactions := transactions s @ [r]\<rparr>)))
           \<subseteq> (\<lambda>i. Some (generate_id ''txn'' i)) ` {..<k + 1}"
    by simp
qed

lemma customer_transactions_ok:
  assumes "\<not> foreign_keys c"
  shows "set (map transaction_id (transactions s)) \<subseteq> (\<lambda>i. Some (generate_id ''txn'' i)) ` {..<k} \<Longrightarrow>
     \<exists>s' g'. customer_transactions c cid n k g s = Inr (s', k + n, g') \<and>
       set (map transaction_id (transactions s')) \<subseteq> (\<lambda>i. Some (generate_id ''txn'' i)) ` {..<k + n}"
proof (induction n arbitrary: k g s)
  case 0
  then show ?case by simp
next
  case (Suc n)
  let ?r = "normal_transaction (generate_id ''txn'' k) cid g"
  have id: "transaction_id ?r = Some (generate_id ''txn'' k)"
    by (simp add: normal_transaction_def Let_def)
  note ins = insert_transaction_fresh [OF assms id Suc.prems]
  from Suc.IH [OF ins(2), of "advance 14 g"] ins(1) show ?case by simp
qed

lemma normal_transactions_ok:
  assumes "\<not> foreign_keys c"
  shows "set (map transaction_id (transactions s)) \<subseteq> (\<lambda>i. Some (generate_id ''txn'' i)) ` {..<k} \<Longrightarrow>
     \<exists>s' k' g'. normal_transactions c cs k g s = Inr (s', k', g') \<and>
       set (map transaction_id (transactions s')) \<subseteq> (\<lambda>i. Some (generate_id ''txn'' i)) ` {..<k'}"
proof (induction cs arbitrary: k g s)
  case Nil
  then show ?case by simp
next
  case (Cons x cs)
  obtain cid nm mail reg where x: "x = (cid, nm, mail, reg)" by (cases x) auto
  from customer_transactions_ok [OF assms Cons.prems, of cid "randint 5 10 (g 0)" "advance 1 g"]
  obtain s1 g1 where
    s1: "customer_transactions c cid (randint 5 10 (g 0)) k (advance 1 g) s
           = Inr (s1, k + randint 5 10 (g 0), g1)"
    and i1: "set (map transaction_id (transactions s1))
           \<subseteq> (\<lambda>i. Some (generate_id ''txn'' i)) ` {..<k + randint 5 10 (g 0)}"
    by blast
  from Cons.IH [OF i1, of g1] s1 show ?case by (simp add: x)
qed

lemma create_cases_ok:
  assumes "\<not> foreign_keys c"
  shows "set (map transaction_id (transactions s)) \<subseteq> (\<lambda>i. Some (generate_id ''txn'' i)) ` {..<k} \<Longrightarrow>
     \<exists>r. create_cases c bs cases k g s = Inr r"
proof (induction bs arbitrary: cases k g s)
  case Nil
  then show ?case by simp
next
  case (Cons b bs)
  let ?r = "block_transaction b (generate_id ''txn'' k) g"
  have id: "transaction_id ?r = Some (generate_id ''txn'' k)"
    by (simp add: block_transaction_def)
  note ins = insert_transaction_fresh [OF assms id Cons.prems]
  from Cons.IH [OF ins(2)] ins(1) show ?case by simp
qed

lemma insert_chargebacks_ok:
  assumes "\<not> foreign_keys c"
  shows "distinct (map case_chargeback_id cases) \<Longrightarrow>
     (\<forall>cb\<in>set cases. Some (case_chargeback_id cb) \<notin> set (map chargeback_id (chargebacks s))) \<Longrightarrow>
     \<exists>r. insert_chargebacks c cases g s = Inr r"
proof (induction cases arbitrary: g s)
  case Nil
  then show ?case by simp
next
  case (Cons cb cbs)
  let ?s1 = "s\<lparr>chargebacks := chargebacks s @ [chargeback_row cb g]\<rparr>"
  have ins: "insert_chargeback c (chargeback_row cb g) s = Inr ?s1"
    using Cons.prems(2) assms
    by (simp add: insert_chargeback_def key_taken_def chargeback_row_fields)
  have d: "distinct (map case_chargeback_id cbs)"
    using Cons.prems(1) by simp
  have "\<forall>x\<in>set cbs. Some (case_chargeback_id x) \<notin> set (map chargeback_id (chargebacks ?s1))"
  proof
    fix x assume x: "x \<in> set cbs"
    then have "case_chargeback_id x \<in> set (map case_chargeback_id cbs)" by simp
    moreover have "case_chargeback_id cb \<notin> set (map case_chargeback_id cbs)"
      using Cons.prems(1) by simp
    ultimately have "case_chargeback_id x \<noteq> case_chargeback_id cb" by auto
    moreover have "Some (case_chargeback_id x) \<notin> set (map chargeback_id (chargebacks s))"
      using Cons.prems(2) x by simp
    ultimately show "Some (case_chargeback_id x) \<notin> set (map chargeback_id (chargebacks ?s1))"
      by (simp add: chargeback_row_fields)
  qed
  from Cons.IH [OF d this] ins show ?case by simp
qed

lemma next_event_id_seq:
  assumes "\<forall>e\<in>set (case_events s). event_id e \<le> case_events_seq s"
  shows "next_event_id s = Suc (case_events_seq s)"
proof -
  have "Max (set (0 # map event_id (case_events s))) \<le> case_events_seq s"
    using assms by (intro Max.boundedI) auto
  then have "max (case_events_seq s) (Max (set (0 # map event_id (case_events s)))) = case_events_seq s"
    by (rule max_absorb1)
  then show ?thesis by (simp only: next_event_id_def)
qed

lemma insert_events_ok:
  assumes "\<not> foreign_keys c"
  shows "(\<forall>e\<in>set (case_events s). event_id e \<le> case_events_seq s) \<Longrightarrow>
     case_events_seq s + length es \<le> max_rowid \<Longrightarrow>
     \<exists>s' g'. insert_events c cb_id es g s = Inr (s', g') \<and>
        (\<forall>e\<in>set (case_events s'). event_id e \<le> case_events_seq s') \<and>
        case_events_seq s' = case_events_seq s + length es"
proof (induction es arbitrary: g s)
  case Nil
  then show ?case by simp
next
  case (Cons x es)
  obtain ty body where x: "x = (ty, body)" by (cases x) auto
  let ?e = "\<lparr>event_id = Suc (case_events_seq s), ev_chargeback_id = cb_id, event_type = ty,
            event_date = Some (random_date 10 1 (g 0)), event_body = body\<rparr>"
  let ?s1 = "s\<lparr>case_events := case_events s @ [?e], case_events_seq := Suc (case_events_seq s)\<rparr>"
  have ins: "insert_case_event c cb_id ty (Some (random_date 10 1 (g 0))) body s = Inr ?s1"
    using assms Cons.prems(2)
    by (simp add: insert_case_event_def next_event_id_seq [OF Cons.prems(1)])
  have inv: "\<forall>e\<in>set (case_events ?s1). event_id e \<le> case_events_seq ?s1"
    using Cons.prems(1) by (auto intro: le_SucI)
  have bound: "case_events_seq ?s1 + length es \<le> max_rowid"
    using Cons.prems(2) by simp
  from Cons.IH [OF inv bound, of "advance 1 g"] ins show ?case
    by (auto simp: x)
qed

lemma create_case_events_ok:
  assumes "\<not> foreign_keys c"
  shows "(\<forall>e\<in>set (case_events s). event_id e \<le> case_events_seq s) \<Longrightarrow>
     list_all (\<lambda>cb. get_or_empty evidence (case_chargeback_id cb) \<noteq> []) cases \<Longrightarrow>
     case_events_seq s +
       sum_list (map (\<lambda>cb. length (get_or_empty evidence (case_chargeback_id cb))) cases)
       \<le> max_rowid \<Longrightarrow>
     \<exists>r. create_case_events c evidence cases g s = Inr r"
proof (induction cases arbitrary: g s)
  case Nil
  then show ?case by simp
next
  case (Cons cb cbs)
  let ?es = "get_or_empty evidence (case_chargeback_id cb)"
  have ne: "?es \<noteq> []" using Cons.prems(2) by simp
  then have ev: "events_for evidence cb g = (?es, g)"
    by (simp add: events_for_def Let_def)
  have b1: "case_events_seq s + length ?es \<le> max_rowid"
    using Cons.prems(3) by simp
  from insert_events_ok [OF assms Cons.prems(1) b1, of "case_chargeback_id cb" g]
  obtain s1 g1 where
    s1: "insert_events c (case_chargeback_id cb) ?es g s = Inr (s1, g1)"
    and inv: "\<forall>e\<in>set (case_events s1). event_id e \<le> case_events_seq s1"
    and seq: "case_events_seq s1 = case_events_seq s + length ?es"
    by blast
  have rest: "list_all (\<lambda>cb. get_or_empty evidence (case_chargeback_id cb) \<noteq> []) cbs"
    using Cons.prems(2) by simp
  have b2: "case_events_seq s1 +
       sum_list (map (\<lambda>cb. length (get_or_empty evidence (case_chargeback_id cb))) cbs)
       \<le> max_rowid"
    using Cons.prems(3) seq by simp
  from Cons.IH [OF inv rest b2, of g1] s1 ev show ?case by simp
qed

lemma case_evidence_lengths:
  "map (\<lambda>i. length (get_or_empty case_evidence i)) (map b_chargeback_id case_blocks) =
     [5, 5, 5, 5, 5, 5, 5, 5, 5, 5, 5, 5, 5, 5, 5, 5, 4, 4, 4, 4, 4, 4, 5]"
  unfolding case_blocks_ids by (simp add: case_evidence_def get_or_empty_def)

lemma written_for_ids:
  "list_all2 written_for bs plan \<Longrightarrow>
   map (\<lambda>p. case_chargeback_id (snd p)) plan = map b_chargeback_id bs"
proof (induction rule: list_all2_induct)
  case Nil
  then show ?case by simp
next
  case (Cons b p bs plan)
  then show ?case
    by (auto simp: written_for_def block_case_fields)
qed

text \<open>A run on a store whose event counter leaves room for the 109 authored events
  completes, whatever the stream and whatever rows the store held.\<close>

lemma seed_database_completes:
  assumes "case_events_seq s + 109 \<le> max_rowid"
  shows "\<exists>s' cases. seed_database g (Some (Tables s)) = Seeded s' cases"
proof -
  have nofk: "\<not> foreign_keys connect" by (simp add: connect_def)
  define s0 where "s0 = s\<lparr>case_events := [], chargebacks := [], transactions := [],
      customers := [], merchants := []\<rparr>"
  have clear: "clear_existing_data connect s = Inr s0"
    unfolding s0_def by (rule clear_existing_data_connect)
  have "merchants s0 = []" by (simp add: s0_def)
  from create_merchants_ok [OF this] obtain s1 g1 where
    r1: "create_merchants connect merchants_data g s0 = Inr (s1, g1)" by fastforce
  from create_merchants_shape [OF r1] obtain ms where
    ms: "s1 = s0\<lparr>merchants := merchants s0 @ ms\<rparr>" by blast
  have "customers s1 = []" by (simp add: ms s0_def)
  from create_customers_ok [OF this] obtain s2 g2 where
    r2: "create_customers connect customers_data g1 s1 = Inr (s2, g2)" by fastforce
  from create_customers_shape [OF r2] obtain cs where
    cs: "s2 = s1\<lparr>customers := customers s1 @ cs\<rparr>" by blast
  have "transactions s2 = []" by (simp add: cs ms s0_def)
  then have "set (map transaction_id (transactions s2))
      \<subseteq> (\<lambda>i. Some (generate_id ''txn'' i)) ` {..<1}" by simp
  from normal_transactions_ok [OF nofk this] obtain s3 k g3 where
    r3: "normal_transactions connect customers_data 1 g2 s2 = Inr (s3, k, g3)"
    and i3: "set (map transaction_id (transactions s3))
      \<subseteq> (\<lambda>i. Some (generate_id ''txn'' i)) ` {..<k}" by blast
  from normal_transactions_shape [OF r3] obtain normal where
    n: "s3 = s2\<lparr>transactions := transactions s2 @ normal\<rparr>" by blast
  from create_cases_ok [OF nofk i3] obtain s4 cases k' g4 where
    r4: "create_cases connect case_blocks [] k g3 s3 = Inr (s4, cases, k', g4)" by fastforce
  from create_cases_shape [OF r4] obtain plan where
    p: "s4 = s3\<lparr>transactions := transactions s3 @ map fst plan\<rparr>"
       "cases = [] @ map snd plan" "list_all2 written_for case_blocks plan" by blast
  have ids: "map case_chargeback_id cases = map b_chargeback_id case_blocks"
    using written_for_ids [OF p(3)] by (simp add: p(2) comp_def)
  have d: "distinct (map case_chargeback_id cases)"
    unfolding ids case_blocks_ids by simp
  have "chargebacks s4 = []" by (simp add: p n cs ms s0_def)
  then have "\<forall>cb\<in>set cases. Some (case_chargeback_id cb) \<notin> set (map chargeback_id (chargebacks s4))"
    by simp
  from insert_chargebacks_ok [OF nofk d this] obtain s5 g5 where
    r5: "insert_chargebacks connect cases g4 s4 = Inr (s5, g5)" by fastforce
  from insert_chargebacks_shape [OF r5] obtain rows where
    rows: "s5 = s4\<lparr>chargebacks := chargebacks s4 @ rows\<rparr>" by blast
  have e5: "case_events s5 = []" and q5: "case_events_seq s5 = case_events_seq s"
    by (simp_all add: rows p n cs ms s0_def)
  have inv: "\<forall>e\<in>set (case_events s5). event_id e \<le> case_events_seq s5"
    by (simp add: e5)
  have lens: "map (\<lambda>cb. length (get_or_empty case_evidence (case_chargeback_id cb))) cases =
       [5, 5, 5, 5, 5, 5, 5, 5, 5, 5, 5, 5, 5, 5, 5, 5, 4, 4, 4, 4, 4, 4, 5]"
    using case_evidence_lengths unfolding ids [symmetric] by (simp add: comp_def)
  have "list_all (\<lambda>n. n \<noteq> 0)
          (map (\<lambda>cb. length (get_or_empty case_evidence (case_chargeback_id cb))) cases)"
    unfolding lens by simp
  then have ne: "list_all (\<lambda>cb. get_or_empty case_evidence (case_chargeback_id cb) \<noteq> []) cases"
    by (simp add: list_all_iff)
  have total: "case_events_seq s5 +
       sum_list (map (\<lambda>cb. length (get_or_empty case_evidence (case_chargeback_id cb))) cases)
       \<le> max_rowid"
    unfolding lens q5 using assms by simp
  from create_case_events_ok [OF nofk inv ne total] obtain s6 g6 where
    r6: "create_case_events connect case_evidence cases (advance case_evidence_draws g5) s5
           = Inr (s6, g6)" by fastforce
  show ?thesis
    by (simp add: seed_database_def clear write_rows_def r1 r2 r3 r4 r5 r6 del: One_nat_def)
qed

lemma seeded_block:
  assumes "seed_database g (Some (Tables s)) = Seeded s' cases" and "b \<in> set case_blocks"
  shows "\<exists>k h. block_case b (generate_id ''txn'' k) h \<in> set cases \<and>
               block_transaction b (generate_id ''txn'' k) h \<in> set (transactions s')"
proof -
  from seeded_structure [OF assms(1)] obtain normal plan where
    tx: "transactions s' = normal @ map fst plan" and cs: "cases = map snd plan"
    and w: "list_all2 written_for case_blocks plan"
    by blast
  from list_all2_left_in_set [OF w assms(2)] obtain p where
    p: "p \<in> set plan" "written_for b p" by blast
  from p(2) obtain k h where
    kh: "p = (block_transaction b (generate_id ''txn'' k) h, block_case b (generate_id ''txn'' k) h)"
    unfolding written_for_def by blast
  have "fst p \<in> set (transactions s')" "snd p \<in> set cases"
    unfolding tx cs using p(1) by simp_all
  then show ?thesis unfolding kh by auto
qed

subsection \<open>The join count is the number of the customer's chargebacks\<close>

lemma matching_rows_of_distinct_key:
  assumes "distinct (map f ts)"
  shows "length (filter (\<lambda>t. f t = v \<and> P t) ts) = (if list_ex (\<lambda>t. f t = v \<and> P t) ts then 1 else 0)"
  using assms
proof (induction ts)
  case Nil
  then show ?case by simp
next
  case (Cons t ts)
  then have fresh: "f t \<notin> f ` set ts" and d: "distinct (map f ts)" by simp_all
  show ?case
  proof (cases "f t = v \<and> P t")
    case True
    have "\<forall>x\<in>set ts. f x \<noteq> v"
      using fresh True by (auto simp: image_iff)
    then have "filter (\<lambda>t. f t = v \<and> P t) ts = []"
      by (simp add: filter_empty_conv)
    with True show ?thesis by simp
  next
    case False
    with Cons.IH [OF d] show ?thesis by (auto split: if_splits)
  qed
qed

lemma length_concat_singletons:
  "length (concat (map (\<lambda>t. if Q t then [h t] else []) ts)) = length (filter Q ts)"
  by (induction ts) simp_all

lemma count_chargebacks_joined_eq:
  assumes "distinct (map transaction_id (transactions s))"
  shows "count_chargebacks_joined s cid = chargebacks_of_customer s cid"
proof -
  have inner: "length (concat (map (\<lambda>t. if transaction_id t = Some v \<and> tx_customer_id t = cid
                                        then [(b, t)] else []) (transactions s)))
      = (if list_ex (\<lambda>t. transaction_id t = Some v \<and> tx_customer_id t = cid) (transactions s)
         then 1 else 0)" for b :: chargeback and v
    unfolding length_concat_singletons
    by (rule matching_rows_of_distinct_key [OF assms])
  define F where "F = (\<lambda>b :: chargeback. concat (map (\<lambda>t. if transaction_id t = Some (cb_transaction_id b) \<and>
             tx_customer_id t = cid then [(b, t)] else []) (transactions s)))"
  define G where "G = (\<lambda>b :: chargeback. list_ex (\<lambda>t. transaction_id t = Some (cb_transaction_id b) \<and>
                                       tx_customer_id t = cid) (transactions s))"
  have one: "length (F b) = (if G b then 1 else 0)" for b
    unfolding F_def G_def by (rule inner)
  have "length (concat (map F bs)) = length (filter G bs)" for bs
    by (induction bs) (simp_all add: one)
  then show ?thesis
    by (simp add: count_chargebacks_joined_def chargebacks_of_customer_def F_def G_def)
qed

subsection \<open>The events chosen for a case\<close>

lemma events_for_fallback:
  assumes "case_fraud_type c \<in> {''true_fraud'', ''friendly_fraud'', ''merchant_error'', ''not_guilty''}"
  shows "fst (events_for evidence c h) \<noteq> []"
    and "get_or_empty evidence (case_chargeback_id c) = [] \<Longrightarrow>
         length (fst (events_for evidence c h)) = 2"
  using assms
  by (auto simp: events_for_def Let_def generic_events_def get_or_empty_def)

subsection \<open>Blocks by id, and a run to instantiate with\<close>

lemma case_blocks_summary:
  "map (\<lambda>b. (b_chargeback_id b, b_fraud_type b, b_status b, b_outcome b)) case_blocks =
     [(''cb_001'', ''true_fraud'', ''open'', None),
      (''cb_002'', ''true_fraud'', ''open'', None),
      (''cb_003'', ''friendly_fraud'', ''open'', None),
      (''cb_004'', ''friendly_fraud'', ''open'', None),
      (''cb_005'', ''friendly_fraud'', ''open'', None),
      (''cb_006'', ''friendly_fraud'', ''open'', None),
      (''cb_007'', ''merchant_error'', ''open'', None),
      (''cb_008'', ''merchant_error'', ''open'', None),
      (''cb_009'', ''not_guilty'', ''won'', Some ''won''),
      (''cb_010'', ''not_guilty'', ''won'', Some ''won''),
      (''cb_011'', ''not_guilty'', ''won'', Some ''won''),
      (''cb_012'', ''not_guilty'', ''won'', Some ''won''),
      (''cb_013'', ''not_guilty'', ''won'', Some ''won''),
      (''cb_014'', ''true_fraud'', ''open'', None),
      (''cb_015'', ''true_fraud'', ''open'', None),
      (''cb_016'', ''true_fraud'', ''open'', None),
      (''cb_017'', ''friendly_fraud'', ''won'', Some ''won''),
      (''cb_018'', ''friendly_fraud'', ''won'', Some ''won''),
      (''cb_019'', ''friendly_fraud'', ''won'', Some ''won''),
      (''cb_020'', ''friendly_fraud'', ''won'', Some ''won''),
      (''cb_021'', ''merchant_error'', ''lost'', Some ''lost''),
      (''cb_022'', ''merchant_error'', ''lost'', Some ''lost''),
      (''cb_023'', ''merchant_error'', ''lost'', Some ''lost'')]"
  by (simp add: case_blocks_def)

lemma case_blocks_examples:
  "\<exists>b\<in>set case_blocks. b_fraud_type b = ''true_fraud''"
  "\<exists>b\<in>set case_blocks. b_fraud_type b = ''not_guilty'' \<and> b_chargeback_id b = ''cb_009'' \<and>
       b_status b = ''won''"
  "\<exists>b\<in>set case_blocks. b_fraud_type b = ''merchant_error'' \<and> b_chargeback_id b = ''cb_007'' \<and>
       b_status b = ''open'' \<and> b_outcome b = None"
proof -
  let ?f = "\<lambda>b. (b_chargeback_id b, b_fraud_type b, b_status b, b_outcome b)"
  have "(''cb_001'', ''true_fraud'', ''open'', None) \<in> set (map ?f case_blocks)"
    unfolding case_blocks_summary by simp
  then show "\<exists>b\<in>set case_blocks. b_fraud_type b = ''true_fraud''" by auto
  have "(''cb_009'', ''not_guilty'', ''won'', Some ''won'') \<in> set (map ?f case_blocks)"
    unfolding case_blocks_summary by simp
  then show "\<exists>b\<in>set case_blocks. b_fraud_type b = ''not_guilty'' \<and> b_chargeback_id b = ''cb_009'' \<and>
       b_status b = ''won''" by auto
  have "(''cb_007'', ''merchant_error'', ''open'', None) \<in> set (map ?f case_blocks)"
    unfolding case_blocks_summary by simp
  then show "\<exists>b\<in>set case_blocks. b_fraud_type b = ''merchant_error'' \<and> b_chargeback_id b = ''cb_007'' \<and>
       b_status b = ''open'' \<and> b_outcome b = None" by auto
qed

lemma case_blocks_id_inject:
  assumes "b \<in> set case_blocks" "b' \<in> set case_blocks"
    and "b_chargeback_id b = b_chargeback_id b'"
  shows "b = b'"
proof -
  have "distinct (map b_chargeback_id case_blocks)"
    unfolding case_blocks_ids by simp
  then have "inj_on b_chargeback_id (set case_blocks)"
    by (simp add: distinct_map)
  from inj_onD [OF this assms(3) assms(1) assms(2)] show ?thesis .
qed

text \<open>The run used to instantiate the theorems below: the all-zero stream on the
  initialized empty store.\<close>

lemma zero_run_completes:
  "\<exists>s' cases. seed_database zero_rng (Some (Tables empty_store)) = Seeded s' cases"
  by (rule seed_database_completes) (simp add: empty_store_def max_rowid_def)

lemma events_of_case_rows:
  assumes "events_of_case evidence c rows"
    and "case_fraud_type c \<in> {''true_fraud'', ''friendly_fraud'', ''merchant_error'', ''not_guilty''}"
  shows "rows \<noteq> []" and "\<forall>e\<in>set rows. ev_chargeback_id e = case_chargeback_id c"
proof -
  from assms(1) obtain h where
    eq: "map (\<lambda>e. (ev_chargeback_id e, event_type e, event_body e)) rows =
         map (\<lambda>(ty, body). (case_chargeback_id c, ty, body)) (fst (events_for evidence c h))"
    unfolding events_of_case_def by blast
  from eq have "length rows = length (fst (events_for evidence c h))"
    by (rule map_eq_imp_length_eq)
  with events_for_fallback(1) [OF assms(2), of evidence h] show "rows \<noteq> []" by auto
  show "\<forall>e\<in>set rows. ev_chargeback_id e = case_chargeback_id c"
  proof
    fix e assume "e \<in> set rows"
    then have "(ev_chargeback_id e, event_type e, event_body e)
        \<in> set (map (\<lambda>e. (ev_chargeback_id e, event_type e, event_body e)) rows)" by simp
    then have "(ev_chargeback_id e, event_type e, event_body e)
        \<in> set (map (\<lambda>(ty, body). (case_chargeback_id c, ty, body)) (fst (events_for evidence c h)))"
      unfolding eq .
    then show "ev_chargeback_id e = case_chargeback_id c" by auto
  qed
qed

lemma seeded_case_fraud_type:
  assumes "seed_database g (Some (Tables s)) = Seeded s' cases" and "c \<in> set cases"
  shows "case_fraud_type c \<in> {''true_fraud'', ''friendly_fraud'', ''merchant_error'', ''not_guilty''}"
proof -
  from seeded_case [OF assms] obtain b k h where
    b: "b \<in> set case_blocks" "c = block_case b (generate_id ''txn'' k) h" by blast
  from case_blocks_fraud_types b(1) have
    "b_fraud_type b \<in> {''true_fraud'', ''friendly_fraud'', ''merchant_error'', ''not_guilty''}"
    by (auto simp only: list_all_iff)
  then show ?thesis by (simp only: b(2) block_case_fields)
qed

lemma row_of_case_transactions:
  "list_all2 row_of_case cases rows \<Longrightarrow>
   map cb_transaction_id rows = map case_transaction_id cases"
  by (induction rule: list_all2_induct) (auto simp: row_of_case_def chargeback_row_def)

lemma written_for_transactions:
  "list_all2 written_for bs plan \<Longrightarrow>
   map (\<lambda>p. transaction_id (fst p)) plan = map (\<lambda>p. Some (case_transaction_id (snd p))) plan"
  by (induction rule: list_all2_induct)
     (auto simp: written_for_def block_case_def block_transaction_def)

lemma seeded_counts:
  assumes "seed_database g (Some (Tables s)) = Seeded s' cases"
  shows "length (merchants s') = 4" and "length (customers s') = 7"
    and "length (chargebacks s') = 23"
    and "distinct (map cb_transaction_id (chargebacks s'))"
    and "list_all (\<lambda>r. has_parent (cb_transaction_id r) (map transaction_id (transactions s')))
           (chargebacks s')"
proof -
  from seeded_structure [OF assms] obtain normal plan where
    m: "length (merchants s') = length merchants_data"
    and c: "map customer_id (customers s') = map (\<lambda>x. Some (fst x)) customers_data"
    and tx: "transactions s' = normal @ map fst plan"
    and cs: "cases = map snd plan"
    and w: "list_all2 written_for case_blocks plan"
    and d: "distinct (map transaction_id (transactions s'))"
    and rows: "list_all2 row_of_case cases (chargebacks s')"
    by blast
  show "length (merchants s') = 4"
    by (simp add: m merchants_data_def)
  from c have "length (map customer_id (customers s'))
      = length (map (\<lambda>x. Some (fst x)) customers_data)" by (rule arg_cong)
  then show "length (customers s') = 7"
    by (simp add: customers_data_def)
  have "length case_blocks = length (map b_chargeback_id case_blocks)" by simp
  also have "\<dots> = 23" unfolding case_blocks_ids by simp
  finally have n: "length case_blocks = 23" .
  from list_all2_lengthD [OF rows] list_all2_lengthD [OF w] n
  show "length (chargebacks s') = 23" by (simp add: cs)
  have ids: "map cb_transaction_id (chargebacks s') = map (\<lambda>p. case_transaction_id (snd p)) plan"
    using row_of_case_transactions [OF rows] by (simp add: cs comp_def)
  from d have "distinct (map (\<lambda>p. transaction_id (fst p)) plan)"
    by (simp add: tx comp_def)
  then have "distinct (map (\<lambda>p. Some (case_transaction_id (snd p))) plan)"
    unfolding written_for_transactions [OF w] .
  moreover have "map Some (map (\<lambda>p. case_transaction_id (snd p)) plan)
      = map (\<lambda>p. Some (case_transaction_id (snd p))) plan" by simp
  ultimately have "distinct (map Some (map (\<lambda>p. case_transaction_id (snd p)) plan))"
    by (simp only:)
  moreover have "distinct ys" if "distinct (map Some ys)" for ys :: "string list"
    using that by (simp add: distinct_map)
  ultimately show "distinct (map cb_transaction_id (chargebacks s'))"
    unfolding ids by blast
  have "Some (cb_transaction_id r) \<in> set (map transaction_id (transactions s'))"
    if "r \<in> set (chargebacks s')" for r
  proof -
    from that have "cb_transaction_id r \<in> set (map cb_transaction_id (chargebacks s'))" by simp
    then obtain p where p: "p \<in> set plan" "cb_transaction_id r = case_transaction_id (snd p)"
      unfolding ids by auto
    from p(1) have "transaction_id (fst p) \<in> set (map (\<lambda>p. transaction_id (fst p)) plan)"
      by simp
    moreover from p(1) have "(\<lambda>p. Some (case_transaction_id (snd p))) p
        \<in> set (map (\<lambda>p. Some (case_transaction_id (snd p))) plan)"
      by (intro imageI [of p "set plan", folded set_map])
    then have "Some (cb_transaction_id r) \<in> set (map (\<lambda>p. transaction_id (fst p)) plan)"
      unfolding written_for_transactions [OF w] p(2) by simp
    then show ?thesis by (auto simp: tx)
  qed
  then show "list_all (\<lambda>r. has_parent (cb_transaction_id r) (map transaction_id (transactions s')))
           (chargebacks s')"
    by (simp add: list_all_iff has_parent_def)
qed

section \<open>The claims about the generator\<close>

text \<open>
  Each theorem is about an arbitrary stream of random outputs \<open>g\<close> and an arbitrary
  initialized store \<open>s\<close>, and about a run that completed: \<open>s'\<close> is the store it committed
  and \<open>cases\<close> its list \<^verbatim>\<open>chargeback_cases\<close>. That runs do complete is
  \<open>seed_database_completes\<close>.
\<close>

subsection \<open>Fraud scores by category\<close>

text \<open>
  C5. For every transaction the generator creates for a true-fraud case and every
  transaction it creates for a not-guilty case, the fraud score of the first exceeds the
  fraud score of the second by at least 50 points. The transaction of a case is the
  stored transaction whose id the case carries; the category of a case is its
  \<^verbatim>\<open>fraud_type\<close>. (The scores are at least 88.2 and at most 15, so the margin is 73.2.)
\<close>

theorem true_fraud_score_margin:
  assumes "seed_database g (Some (Tables s)) = Seeded s' cases"
    and "c1 \<in> set cases" "case_fraud_type c1 = ''true_fraud''"
    and "c2 \<in> set cases" "case_fraud_type c2 = ''not_guilty''"
    and "t1 \<in> set (transactions s')" "transaction_id t1 = Some (case_transaction_id c1)"
    and "t2 \<in> set (transactions s')" "transaction_id t2 = Some (case_transaction_id c2)"
  shows "\<exists>x1 x2. fraud_score t1 = Some x1 \<and> fraud_score t2 = Some x2 \<and> x2 + 50 \<le> x1"
proof -
  from seeded_case [OF assms(1,2)] obtain b1 k1 h1 where
    b1: "b1 \<in> set case_blocks" "c1 = block_case b1 (generate_id ''txn'' k1) h1"
        "block_transaction b1 (generate_id ''txn'' k1) h1 \<in> set (transactions s')"
    by blast
  from seeded_case [OF assms(1,4)] obtain b2 k2 h2 where
    b2: "b2 \<in> set case_blocks" "c2 = block_case b2 (generate_id ''txn'' k2) h2"
        "block_transaction b2 (generate_id ''txn'' k2) h2 \<in> set (transactions s')"
    by blast
  have "t1 = block_transaction b1 (generate_id ''txn'' k1) h1"
    by (rule seeded_same_transaction [OF assms(1) assms(6) b1(3)])
       (simp add: assms(7) b1(2) block_case_fields block_transaction_fields)
  then have s1: "fraud_score t1 = Some (b_fraud_score b1)"
    by (simp add: block_transaction_fields)
  have "t2 = block_transaction b2 (generate_id ''txn'' k2) h2"
    by (rule seeded_same_transaction [OF assms(1) assms(8) b2(3)])
       (simp add: assms(9) b2(2) block_case_fields block_transaction_fields)
  then have s2: "fraud_score t2 = Some (b_fraud_score b2)"
    by (simp add: block_transaction_fields)
  have f1: "b_fraud_type b1 = ''true_fraud''"
    using assms(3) by (simp add: b1(2) block_case_fields)
  have f2: "b_fraud_type b2 = ''not_guilty''"
    using assms(5) by (simp add: b2(2) block_case_fields)
  from case_blocks_scores b1(1) f1 have "88.2 \<le> b_fraud_score b1"
    by (auto simp only: list_all_iff)
  moreover from case_blocks_scores b2(1) f2 have "b_fraud_score b2 \<le> 15"
    by (auto simp only: list_all_iff)
  ultimately have "b_fraud_score b2 + 50 \<le> b_fraud_score b1" by simp
  with s1 s2 show ?thesis by simp
qed

theorem true_fraud_score_margin_witness:
  "\<exists>s' cases c1 c2 t1 t2 x1 x2.
     seed_database zero_rng (Some (Tables empty_store)) = Seeded s' cases \<and>
     c1 \<in> set cases \<and> case_fraud_type c1 = ''true_fraud'' \<and>
     c2 \<in> set cases \<and> case_fraud_type c2 = ''not_guilty'' \<and>
     t1 \<in> set (transactions s') \<and> transaction_id t1 = Some (case_transaction_id c1) \<and>
     t2 \<in> set (transactions s') \<and> transaction_id t2 = Some (case_transaction_id c2) \<and>
     fraud_score t1 = Some x1 \<and> fraud_score t2 = Some x2 \<and> x2 + 50 \<le> x1"
proof -
  from zero_run_completes obtain s' cases where
    run: "seed_database zero_rng (Some (Tables empty_store)) = Seeded s' cases" by blast
  from case_blocks_examples(1) obtain b1 where
    b1: "b1 \<in> set case_blocks" "b_fraud_type b1 = ''true_fraud''" by blast
  from case_blocks_examples(2) obtain b2 where
    b2: "b2 \<in> set case_blocks" "b_fraud_type b2 = ''not_guilty''" by blast
  from seeded_block [OF run b1(1)] obtain k1 h1 where
    c1: "block_case b1 (generate_id ''txn'' k1) h1 \<in> set cases"
    and t1: "block_transaction b1 (generate_id ''txn'' k1) h1 \<in> set (transactions s')" by blast
  from seeded_block [OF run b2(1)] obtain k2 h2 where
    c2: "block_case b2 (generate_id ''txn'' k2) h2 \<in> set cases"
    and t2: "block_transaction b2 (generate_id ''txn'' k2) h2 \<in> set (transactions s')" by blast
  let ?c1 = "block_case b1 (generate_id ''txn'' k1) h1"
  let ?c2 = "block_case b2 (generate_id ''txn'' k2) h2"
  let ?t1 = "block_transaction b1 (generate_id ''txn'' k1) h1"
  let ?t2 = "block_transaction b2 (generate_id ''txn'' k2) h2"
  have f1: "case_fraud_type ?c1 = ''true_fraud''" and f2: "case_fraud_type ?c2 = ''not_guilty''"
    by (simp_all add: block_case_fields b1 b2)
  have i1: "transaction_id ?t1 = Some (case_transaction_id ?c1)"
    and i2: "transaction_id ?t2 = Some (case_transaction_id ?c2)"
    by (simp_all add: block_case_fields block_transaction_fields)
  from true_fraud_score_margin [OF run c1 f1 c2 f2 t1 i1 t2 i2] obtain x1 x2 where
    x: "fraud_score ?t1 = Some x1" "fraud_score ?t2 = Some x2" "x2 + 50 \<le> x1" by blast
  show ?thesis
    apply (rule exI [of _ s'], rule exI [of _ cases], rule exI [of _ ?c1], rule exI [of _ ?c2])
    apply (rule exI [of _ ?t1], rule exI [of _ ?t2], rule exI [of _ x1], rule exI [of _ x2])
    apply (intro conjI)
    apply (fact run c1 f1 c2 f2 t1 i1 t2 i2 x)+
    done
qed

subsection \<open>The stored chargeback counts of customers\<close>

text \<open>
  C6. After a completed run, every customer row's \<^verbatim>\<open>total_chargebacks\<close> equals the number
  of chargebacks whose transaction belongs to that customer, counted from the stored
  chargebacks and transactions (\<open>chargebacks_of_customer\<close>), not from the generator's own
  join query.
\<close>

theorem total_chargebacks_recomputed:
  assumes "seed_database g (Some (Tables s)) = Seeded s' cases" and "r \<in> set (customers s')"
  shows "\<exists>cid. customer_id r = Some cid \<and>
           total_chargebacks r = Some (int (chargebacks_of_customer s' cid))"
proof -
  from seeded_structure [OF assms(1)] have
    ids: "map customer_id (customers s') = map (\<lambda>x. Some (fst x)) customers_data"
    and d: "distinct (map transaction_id (transactions s'))"
    and totals: "\<forall>r\<in>set (customers s'). \<forall>cid. customer_id r = Some cid \<longrightarrow>
        total_chargebacks r = Some (int (count_chargebacks_joined s' cid))"
    by blast+
  from assms(2) have "customer_id r \<in> set (map customer_id (customers s'))" by simp
  then obtain cid where cid: "customer_id r = Some cid"
    unfolding ids by auto
  with totals assms(2) have "total_chargebacks r = Some (int (count_chargebacks_joined s' cid))"
    by blast
  with cid show ?thesis
    by (simp add: count_chargebacks_joined_eq [OF d])
qed

theorem total_chargebacks_recomputed_witness:
  "\<exists>s' cases r cid.
     seed_database zero_rng (Some (Tables empty_store)) = Seeded s' cases \<and>
     r \<in> set (customers s') \<and> customer_id r = Some cid \<and>
     total_chargebacks r = Some (int (chargebacks_of_customer s' cid))"
proof -
  from zero_run_completes obtain s' cases where
    run: "seed_database zero_rng (Some (Tables empty_store)) = Seeded s' cases" by blast
  from seeded_structure [OF run] have
    "map customer_id (customers s') = map (\<lambda>x. Some (fst x)) customers_data" by blast
  then have "length (map customer_id (customers s'))
      = length (map (\<lambda>x. Some (fst x)) customers_data)" by (rule arg_cong)
  then have "length (customers s') = length customers_data"
    by simp
  then have "customers s' \<noteq> []" by (auto simp: customers_data_def)
  then obtain r where r: "r \<in> set (customers s')" by (cases "customers s'") auto
  from total_chargebacks_recomputed [OF run r] obtain cid where
    "customer_id r = Some cid"
    "total_chargebacks r = Some (int (chargebacks_of_customer s' cid))" by blast
  with run r show ?thesis
    by (intro exI [of _ s'] exI [of _ cases] exI [of _ r] exI [of _ cid]) simp
qed

subsection \<open>Outcome and closing time\<close>

text \<open>
  C7. For every chargeback the generator writes, \<^verbatim>\<open>closed_at\<close> is null exactly when
  \<^verbatim>\<open>outcome\<close> is null, and both are set exactly for the terminal statuses \<^verbatim>\<open>won\<close> and
  \<^verbatim>\<open>lost\<close>.
\<close>

theorem closed_at_and_outcome_paired:
  assumes "seed_database g (Some (Tables s)) = Seeded s' cases" and "r \<in> set (chargebacks s')"
  shows "(closed_at r = None \<longleftrightarrow> outcome r = None) \<and>
         (outcome r \<noteq> None \<longleftrightarrow> status r = Some ''won'' \<or> status r = Some ''lost'')"
proof -
  from seeded_chargeback [OF assms] obtain c h where
    c: "c \<in> set cases" "r = chargeback_row c h" by blast
  from seeded_case [OF assms(1) c(1)] obtain b k h' where
    b: "b \<in> set case_blocks" "c = block_case b (generate_id ''txn'' k) h'" by blast
  from case_blocks_lifecycle b(1) have
    "(b_closed_at b = None \<longleftrightarrow> b_outcome b = None) \<and>
     (b_outcome b \<noteq> None \<longleftrightarrow> b_status b = ''won'' \<or> b_status b = ''lost'')"
    by (auto simp only: list_all_iff)
  then show ?thesis
    by (simp add: c(2) b(2) chargeback_row_fields block_case_fields)
qed

theorem closed_at_and_outcome_paired_witness:
  "\<exists>s' cases r.
     seed_database zero_rng (Some (Tables empty_store)) = Seeded s' cases \<and>
     r \<in> set (chargebacks s') \<and> chargeback_id r = Some ''cb_009'' \<and>
     status r = Some ''won'' \<and> outcome r \<noteq> None \<and> closed_at r \<noteq> None \<and>
     (closed_at r = None \<longleftrightarrow> outcome r = None)"
proof -
  from zero_run_completes obtain s' cases where
    run: "seed_database zero_rng (Some (Tables empty_store)) = Seeded s' cases" by blast
  from case_blocks_examples(2) obtain b where
    b: "b \<in> set case_blocks" "b_chargeback_id b = ''cb_009''" "b_status b = ''won''" by blast
  from seeded_block [OF run b(1)] obtain k h where
    c: "block_case b (generate_id ''txn'' k) h \<in> set cases" by blast
  from seeded_case_has_row [OF run c] obtain h' where
    r: "chargeback_row (block_case b (generate_id ''txn'' k) h) h' \<in> set (chargebacks s')" by blast
  let ?r = "chargeback_row (block_case b (generate_id ''txn'' k) h) h'"
  have id: "chargeback_id ?r = Some ''cb_009''" and st: "status ?r = Some ''won''"
    by (simp_all add: chargeback_row_fields block_case_fields b)
  from closed_at_and_outcome_paired [OF run r] st have
    "outcome ?r \<noteq> None" "closed_at ?r \<noteq> None" "closed_at ?r = None \<longleftrightarrow> outcome ?r = None"
    by simp_all
  with run r id st show ?thesis
    by (intro exI [of _ s'] exI [of _ cases] exI [of _ ?r]) simp
qed

subsection \<open>Events of every case\<close>

text \<open>
  C8. Every chargeback of a completed run has at least one case event stored under its
  id. And for every case the generator creates, whatever the dictionary of authored
  events is, the events chosen for it are never none: a case without authored events
  gets the generic sequence of its fraud type, which has two events.
\<close>

theorem every_chargeback_has_events:
  assumes "seed_database g (Some (Tables s)) = Seeded s' cases"
  shows "(\<forall>r\<in>set (chargebacks s').
            1 \<le> length (filter (\<lambda>e. Some (ev_chargeback_id e) = chargeback_id r) (case_events s')))
       \<and> (\<forall>c\<in>set cases. \<forall>evidence h.
            fst (events_for evidence c h) \<noteq> [] \<and>
            (get_or_empty evidence (case_chargeback_id c) = [] \<longrightarrow>
             length (fst (events_for evidence c h)) = 2))"
proof (rule conjI)
  show "\<forall>r\<in>set (chargebacks s').
          1 \<le> length (filter (\<lambda>e. Some (ev_chargeback_id e) = chargeback_id r) (case_events s'))"
  proof
  fix r assume r: "r \<in> set (chargebacks s')"
  from seeded_chargeback [OF assms r] obtain c h where
    c: "c \<in> set cases" "r = chargeback_row c h" by blast
  from seeded_structure [OF assms] obtain groups where
    ev: "case_events s' = concat groups"
    and g: "list_all2 (events_of_case case_evidence) cases groups" by blast
  from list_all2_left_in_set [OF g c(1)] obtain rows where
    rows: "rows \<in> set groups" "events_of_case case_evidence c rows" by blast
  note facts = events_of_case_rows [OF rows(2) seeded_case_fraud_type [OF assms c(1)]]
  from facts(1) obtain e where e: "e \<in> set rows" by (cases rows) auto
  with facts(2) have "Some (ev_chargeback_id e) = chargeback_id r"
    by (simp add: c(2) chargeback_row_fields)
  moreover from e rows(1) have "e \<in> set (case_events s')"
    unfolding ev by auto
  ultimately have "filter (\<lambda>e. Some (ev_chargeback_id e) = chargeback_id r) (case_events s') \<noteq> []"
    by (auto simp: filter_empty_conv)
  then show "1 \<le> length (filter (\<lambda>e. Some (ev_chargeback_id e) = chargeback_id r) (case_events s'))"
    by (cases "filter (\<lambda>e. Some (ev_chargeback_id e) = chargeback_id r) (case_events s')") auto
  qed
next
  show "\<forall>c\<in>set cases. \<forall>evidence h.
            fst (events_for evidence c h) \<noteq> [] \<and>
            (get_or_empty evidence (case_chargeback_id c) = [] \<longrightarrow>
             length (fst (events_for evidence c h)) = 2)"
  proof (intro ballI allI)
  fix c evidence h assume c: "c \<in> set cases"
  note ft = seeded_case_fraud_type [OF assms c]
  from events_for_fallback [OF ft, of evidence h]
  show "fst (events_for evidence c h) \<noteq> [] \<and>
        (get_or_empty evidence (case_chargeback_id c) = [] \<longrightarrow>
         length (fst (events_for evidence c h)) = 2)"
    by blast
  qed
qed

theorem every_chargeback_has_events_witness:
  "\<exists>s' cases r c.
     seed_database zero_rng (Some (Tables empty_store)) = Seeded s' cases \<and>
     r \<in> set (chargebacks s') \<and> chargeback_id r = Some ''cb_009'' \<and>
     1 \<le> length (filter (\<lambda>e. Some (ev_chargeback_id e) = chargeback_id r) (case_events s')) \<and>
     c \<in> set cases \<and>
     get_or_empty [] (case_chargeback_id c) = ([] :: (string \<times> event_body) list) \<and>
     length (fst (events_for [] c zero_rng)) = 2"
proof -
  from zero_run_completes obtain s' cases where
    run: "seed_database zero_rng (Some (Tables empty_store)) = Seeded s' cases" by blast
  from case_blocks_examples(2) obtain b where
    b: "b \<in> set case_blocks" "b_chargeback_id b = ''cb_009''" by blast
  from seeded_block [OF run b(1)] obtain k h where
    c: "block_case b (generate_id ''txn'' k) h \<in> set cases" by blast
  from seeded_case_has_row [OF run c] obtain h' where
    r: "chargeback_row (block_case b (generate_id ''txn'' k) h) h' \<in> set (chargebacks s')" by blast
  let ?c = "block_case b (generate_id ''txn'' k) h"
  let ?r = "chargeback_row ?c h'"
  have id: "chargeback_id ?r = Some ''cb_009''"
    by (simp add: chargeback_row_fields block_case_fields b)
  have none: "get_or_empty [] (case_chargeback_id ?c) = ([] :: (string \<times> event_body) list)"
    by (simp add: get_or_empty_def)
  note evs = every_chargeback_has_events [OF run]
  from evs r have
    n: "1 \<le> length (filter (\<lambda>e. Some (ev_chargeback_id e) = chargeback_id ?r) (case_events s'))"
    by blast
  from evs c none have two: "length (fst (events_for [] ?c zero_rng)) = 2"
    by blast
  show ?thesis
    using run r id n c none two
    by (intro exI [of _ s'] exI [of _ cases] exI [of _ ?r] exI [of _ ?c]) simp
qed

subsection \<open>Merchant-error cases\<close>

text \<open>
  C9, as claimed: every merchant-error case has status \<^verbatim>\<open>lost\<close> and outcome \<^verbatim>\<open>lost\<close>. In the
  run on the empty store with the all-zero stream, the merchant-error case \<^verbatim>\<open>cb_007\<close>
  (the duplicate charge) is stored with status \<^verbatim>\<open>open\<close> and no outcome.
\<close>

theorem merchant_error_open_counterexample:
  "\<exists>s' cases c r.
     seed_database zero_rng (Some (Tables empty_store)) = Seeded s' cases \<and>
     c \<in> set cases \<and> case_fraud_type c = ''merchant_error'' \<and>
     r \<in> set (chargebacks s') \<and> chargeback_id r = Some (case_chargeback_id c) \<and>
     chargeback_id r = Some ''cb_007'' \<and> status r = Some ''open'' \<and> outcome r = None"
proof -
  from zero_run_completes obtain s' cases where
    run: "seed_database zero_rng (Some (Tables empty_store)) = Seeded s' cases" by blast
  from case_blocks_examples(3) obtain b where
    b: "b \<in> set case_blocks" "b_fraud_type b = ''merchant_error''"
       "b_chargeback_id b = ''cb_007''" "b_status b = ''open''" "b_outcome b = None" by blast
  from seeded_block [OF run b(1)] obtain k h where
    c: "block_case b (generate_id ''txn'' k) h \<in> set cases" by blast
  from seeded_case_has_row [OF run c] obtain h' where
    r: "chargeback_row (block_case b (generate_id ''txn'' k) h) h' \<in> set (chargebacks s')" by blast
  show ?thesis
    using run c r
    by (intro exI [of _ s'] exI [of _ cases] exI [of _ "block_case b (generate_id ''txn'' k) h"]
          exI [of _ "chargeback_row (block_case b (generate_id ''txn'' k) h) h'"])
       (simp add: chargeback_row_fields block_case_fields b)
qed

text \<open>
  C9, amended: of the five merchant-error cases the generator produces, \<^verbatim>\<open>cb_021\<close>,
  \<^verbatim>\<open>cb_022\<close> and \<^verbatim>\<open>cb_023\<close> are resolved \<^verbatim>\<open>lost\<close> (status and outcome \<^verbatim>\<open>lost\<close>, closed),
  and \<^verbatim>\<open>cb_007\<close> and \<^verbatim>\<open>cb_008\<close> are still \<^verbatim>\<open>open\<close>, with no outcome and no closing time;
  none is \<^verbatim>\<open>won\<close>.
\<close>

theorem merchant_error_lost_or_open:
  assumes "seed_database g (Some (Tables s)) = Seeded s' cases"
    and "c \<in> set cases" "case_fraud_type c = ''merchant_error''"
    and "r \<in> set (chargebacks s')" "chargeback_id r = Some (case_chargeback_id c)"
  shows "(case_chargeback_id c \<in> {''cb_021'', ''cb_022'', ''cb_023''} \<and>
          status r = Some ''lost'' \<and> outcome r = Some ''lost'' \<and> closed_at r \<noteq> None)
       \<or> (case_chargeback_id c \<in> {''cb_007'', ''cb_008''} \<and>
          status r = Some ''open'' \<and> outcome r = None \<and> closed_at r = None)"
proof -
  from seeded_case [OF assms(1,2)] obtain b k h where
    b: "b \<in> set case_blocks" "c = block_case b (generate_id ''txn'' k) h" by blast
  from seeded_chargeback [OF assms(1,4)] obtain c' h' where
    c': "c' \<in> set cases" "r = chargeback_row c' h'" by blast
  from seeded_case [OF assms(1) c'(1)] obtain b' k' h'' where
    b': "b' \<in> set case_blocks" "c' = block_case b' (generate_id ''txn'' k') h''" by blast
  have "b_chargeback_id b' = b_chargeback_id b"
    using assms(5) by (simp add: c'(2) b'(2) b(2) chargeback_row_fields block_case_fields)
  from case_blocks_id_inject [OF b'(1) b(1) this] have same: "b' = b" .
  have me: "b_fraud_type b = ''merchant_error''"
    using assms(3) by (simp add: b(2) block_case_fields)
  from case_blocks_merchant_error b(1) me have
    "(b_chargeback_id b \<in> {''cb_021'', ''cb_022'', ''cb_023''} \<and>
      b_status b = ''lost'' \<and> b_outcome b = Some ''lost'') \<or>
     (b_chargeback_id b \<in> {''cb_007'', ''cb_008''} \<and>
      b_status b = ''open'' \<and> b_outcome b = None)"
    by (auto simp only: list_all_iff)
  moreover from case_blocks_lifecycle b(1) have
    "b_closed_at b = None \<longleftrightarrow> b_outcome b = None"
    by (auto simp only: list_all_iff)
  ultimately show ?thesis
    by (auto simp: c'(2) b'(2) b(2) same chargeback_row_fields block_case_fields)
qed

theorem merchant_error_lost_or_open_witness:
  "\<exists>s' cases c r.
     seed_database zero_rng (Some (Tables empty_store)) = Seeded s' cases \<and>
     c \<in> set cases \<and> case_fraud_type c = ''merchant_error'' \<and>
     r \<in> set (chargebacks s') \<and> chargeback_id r = Some (case_chargeback_id c) \<and>
     case_chargeback_id c = ''cb_007'' \<and>
     status r = Some ''open'' \<and> outcome r = None \<and> closed_at r = None"
proof -
  from zero_run_completes obtain s' cases where
    run: "seed_database zero_rng (Some (Tables empty_store)) = Seeded s' cases" by blast
  from case_blocks_examples(3) obtain b where
    b: "b \<in> set case_blocks" "b_fraud_type b = ''merchant_error''"
       "b_chargeback_id b = ''cb_007''" by blast
  from seeded_block [OF run b(1)] obtain k h where
    c: "block_case b (generate_id ''txn'' k) h \<in> set cases" by blast
  from seeded_case_has_row [OF run c] obtain h' where
    r: "chargeback_row (block_case b (generate_id ''txn'' k) h) h' \<in> set (chargebacks s')" by blast
  let ?c = "block_case b (generate_id ''txn'' k) h"
  let ?r = "chargeback_row ?c h'"
  have ft: "case_fraud_type ?c = ''merchant_error''" and cid: "case_chargeback_id ?c = ''cb_007''"
    and rid: "chargeback_id ?r = Some (case_chargeback_id ?c)"
    by (simp_all add: chargeback_row_fields block_case_fields b)
  from merchant_error_lost_or_open [OF run c ft r rid] cid have
    "status ?r = Some ''open'' \<and> outcome ?r = None \<and> closed_at ?r = None"
    by simp
  then show ?thesis
    using run c ft r rid cid
    by (intro exI [of _ s'] exI [of _ cases] exI [of _ ?c] exI [of _ ?r]) simp
qed

subsection \<open>The dataset a run leaves\<close>

text \<open>
  C10. A run on any initialized store first deletes the rows of all five tables, in the
  order \<^verbatim>\<open>case_events\<close>, \<^verbatim>\<open>chargebacks\<close>, \<^verbatim>\<open>transactions\<close>, \<^verbatim>\<open>customers\<close>, \<^verbatim>\<open>merchants\<close>
  (the order of \<open>clear_existing_data\<close>), and the rest of the run sees only the emptied
  store: the run's result is the result on the emptied store. When it completes, the
  store holds exactly 4 merchants, 7 customers and 23 chargebacks, the chargebacks
  refer to 23 different transactions, and each of these transactions is stored. A
  run completes whenever the event counter of the store leaves room for the 109 events.
\<close>

theorem seed_database_fixed_dataset:
  "(case_events_seq s + 109 \<le> max_rowid \<longrightarrow>
      (\<exists>s' cases. seed_database g (Some (Tables s)) = Seeded s' cases))
   \<and> clear_existing_data connect s =
       Inr (s\<lparr>case_events := [], chargebacks := [], transactions := [], customers := [],
             merchants := []\<rparr>)
   \<and> seed_database g (Some (Tables s)) =
       seed_database g (Some (Tables (s\<lparr>case_events := [], chargebacks := [],
         transactions := [], customers := [], merchants := []\<rparr>)))
   \<and> (\<forall>s' cases. seed_database g (Some (Tables s)) = Seeded s' cases \<longrightarrow>
        length (merchants s') = 4 \<and> length (customers s') = 7 \<and>
        length (chargebacks s') = 23 \<and>
        distinct (map cb_transaction_id (chargebacks s')) \<and>
        list_all (\<lambda>r. has_parent (cb_transaction_id r) (map transaction_id (transactions s')))
          (chargebacks s'))"
proof (intro conjI)
  show "case_events_seq s + 109 \<le> max_rowid \<longrightarrow>
      (\<exists>s' cases. seed_database g (Some (Tables s)) = Seeded s' cases)"
    using seed_database_completes by blast
  show "clear_existing_data connect s =
       Inr (s\<lparr>case_events := [], chargebacks := [], transactions := [], customers := [],
             merchants := []\<rparr>)"
    by (rule clear_existing_data_connect)
  show "seed_database g (Some (Tables s)) =
       seed_database g (Some (Tables (s\<lparr>case_events := [], chargebacks := [],
         transactions := [], customers := [], merchants := []\<rparr>)))"
    by (simp add: seed_database_def clear_existing_data_connect)
  show "\<forall>s' cases. seed_database g (Some (Tables s)) = Seeded s' cases \<longrightarrow>
        length (merchants s') = 4 \<and> length (customers s') = 7 \<and>
        length (chargebacks s') = 23 \<and>
        distinct (map cb_transaction_id (chargebacks s')) \<and>
        list_all (\<lambda>r. has_parent (cb_transaction_id r) (map transaction_id (transactions s')))
          (chargebacks s')"
    using seeded_counts by blast
qed

theorem seed_database_fixed_dataset_witness:
  "case_events_seq disputed_store + 109 \<le> max_rowid \<and>
   length (customers disputed_store) = 1 \<and> length (chargebacks disputed_store) = 1 \<and>
   (\<exists>s' cases.
      seed_database zero_rng (Some (Tables disputed_store)) = Seeded s' cases \<and>
      seed_database zero_rng (Some (Tables empty_store)) = Seeded s' cases \<and>
      length (merchants s') = 4 \<and> length (customers s') = 7 \<and>
      length (chargebacks s') = 23 \<and>
      distinct (map cb_transaction_id (chargebacks s')))"
proof -
  have bound: "case_events_seq disputed_store + 109 \<le> max_rowid"
    by (simp add: disputed_store_def max_rowid_def)
  have sizes: "length (customers disputed_store) = 1" "length (chargebacks disputed_store) = 1"
    by (simp_all add: disputed_store_def)
  have cleared: "disputed_store\<lparr>case_events := [], chargebacks := [], transactions := [],
      customers := [], merchants := []\<rparr> = empty_store"
    by (simp add: disputed_store_def empty_store_def)
  note fixed = seed_database_fixed_dataset [of disputed_store zero_rng]
  from fixed bound obtain s' cases where
    run: "seed_database zero_rng (Some (Tables disputed_store)) = Seeded s' cases" by blast
  from fixed have "seed_database zero_rng (Some (Tables disputed_store)) =
      seed_database zero_rng (Some (Tables empty_store))"
    unfolding cleared by blast
  with run have run': "seed_database zero_rng (Some (Tables empty_store)) = Seeded s' cases"
    by simp
  from fixed run have
    "length (merchants s') = 4 \<and> length (customers s') = 7 \<and>
     length (chargebacks s') = 23 \<and> distinct (map cb_transaction_id (chargebacks s'))"
    by blast
  with bound sizes run run' show ?thesis
    by (intro conjI exI [of _ s'] exI [of _ cases]) simp_all
qed

end
